theory Spec2Isabelle
  imports
    Complex_Main
    "HOL-Library.Char_ord"
    "HOL-Library.List_Lexorder"
    "HOL-Library.Product_Lexorder"
    "HOL-Library.Multiset"
begin

section \<open>Ladder aggregation: \<^verbatim>\<open>FetchDanceLadders\<close>\<close>

text \<open>
  The embedding follows \<^verbatim>\<open>api/store/cockroach/cockroach_store.go\<close>.

  Numbers. A \<^verbatim>\<open>decimal.Decimal\<close> is an exact decimal fraction and is modelled by
  the rational it denotes. A Go \<^verbatim>\<open>float64\<close> is kept abstract: it is a value of a
  type \<open>'f\<close> that is linearly ordered and has a zero, and the two conversions of the
  decimal library, \<^verbatim>\<open>Decimal.Float64()\<close> and \<^verbatim>\<open>decimal.NewFromFloat\<close>, are
  parameters \<open>F\<close> and \<open>D\<close> of every function that converts. Nothing is assumed
  about the binary rounding of either conversion. Go's \<^verbatim>\<open>int\<close> and \<^verbatim>\<open>int32\<close>
  are integers, with the truncation of the conversion \<^verbatim>\<open>int32(x)\<close> written out.
  Strings are byte strings, compared bytewise and lexicographically as Go's \<^verbatim>\<open><\<close>
  does.
\<close>

type_synonym decimal = rat

definition int32 :: "int \<Rightarrow> int" where
  "int32 x = (x + 2 ^ 31) mod 2 ^ 32 - 2 ^ 31"

text \<open>
  \<^verbatim>\<open>Decimal.Round(2)\<close> of the decimal library: to two decimal places, a half
  rounded away from zero.
\<close>

definition Round2 :: "decimal \<Rightarrow> decimal" where
  "Round2 d =
     (if d < 0 then - (of_int \<lfloor>- d * 100 + 1 / 2\<rfloor> / 100)
      else of_int \<lfloor>d * 100 + 1 / 2\<rfloor> / 100)"

subsection \<open>Errors\<close>

text \<open>
  A Go \<^verbatim>\<open>error\<close> is modelled by what a caller can observe of it: the sentinel
  \<^verbatim>\<open>sql.ErrNoRows\<close>, an error of the database driver with its message, or a
  plain error made by \<^verbatim>\<open>errors.New\<close> with its message. \<open>Error\<close> is the
  method \<^verbatim>\<open>Error()\<close>, which is also what \<^verbatim>\<open>%+v\<close> prints.
\<close>

datatype error = ErrNoRows | PqError string | ErrorString string

fun Error :: "error \<Rightarrow> string" where
  "Error ErrNoRows = ''sql: no rows in result set''"
| "Error (PqError msg) = ''pq: '' @ msg"
| "Error (ErrorString msg) = msg"

subsection \<open>Rows and messages\<close>

text \<open>The row types declared inside the function: \<^verbatim>\<open>ladderTeam\<close> and \<^verbatim>\<open>scoreCalc\<close>.\<close>

record ladderTeam =
  lt_ID :: string
  lt_Name :: string
  lt_Institution :: string
  lt_InstitutionID :: string
  lt_DivisionID :: string
  lt_Division :: string
  lt_CompetitionRounds :: int
  lt_FinalRounds :: int

record scoreCalc =
  sc_Team :: string
  sc_Round :: int
  sc_Average :: decimal
  sc_Count :: int

text \<open>The protobuf messages the function fills, with the fields it sets.\<close>

datatype League = SOCCER | RESCUE | ONSTAGE

record pbInstitution =
  in_Id :: string
  in_Name :: string

record pbTeam =
  tm_Id :: string
  tm_Name :: string
  tm_Institution :: pbInstitution
  tm_Division :: string

record pbDivision =
  dv_Id :: string
  dv_Name :: string
  dv_League :: League
  dv_CompetitionRounds :: int
  dv_FinalRounds :: int

record 'f RoundAverage =
  ra_Round :: int
  ra_Average :: 'f
  ra_Count :: int

record 'f LadderEntry =
  le_Team :: pbTeam
  le_Rounds :: "'f RoundAverage list"
  le_InterviewScore :: 'f
  le_BestRound :: 'f
  le_BestFinal :: 'f
  le_RoundTotal :: 'f
  le_FinalTotal :: 'f

record 'f DivisionLadder =
  dl_Division :: pbDivision
  dl_Ladder :: "'f LadderEntry list"

subsection \<open>The first loop: \<^verbatim>\<open>scoreMap\<close>\<close>

text \<open>
  \<^verbatim>\<open>scoreMap\<close> is a Go map from team id to the team's round averages; it is only
  ever looked up, so it is a partial function. Each average is rounded to two places
  and converted to \<^verbatim>\<open>float64\<close> as it is stored.
\<close>

definition roundAverage :: "(decimal \<Rightarrow> 'f) \<Rightarrow> scoreCalc \<Rightarrow> 'f RoundAverage" where
  "roundAverage F score =
     \<lparr>ra_Round = int32 (sc_Round score),
      ra_Average = F (Round2 (sc_Average score)),
      ra_Count = int32 (sc_Count score)\<rparr>"

definition scoreMap_step ::
  "(decimal \<Rightarrow> 'f) \<Rightarrow> scoreCalc \<Rightarrow> (string \<rightharpoonup> 'f RoundAverage list)
     \<Rightarrow> (string \<rightharpoonup> 'f RoundAverage list)" where
  "scoreMap_step F score scoreMap =
     (let scoreMap1 = (case scoreMap (sc_Team score) of
                         None \<Rightarrow> scoreMap(sc_Team score \<mapsto> [])
                       | Some _ \<Rightarrow> scoreMap)
      in scoreMap1(sc_Team score \<mapsto>
           (case scoreMap1 (sc_Team score) of None \<Rightarrow> [] | Some l \<Rightarrow> l) @ [roundAverage F score]))"

definition scoreMap_of ::
  "(decimal \<Rightarrow> 'f) \<Rightarrow> scoreCalc list \<Rightarrow> (string \<rightharpoonup> 'f RoundAverage list)" where
  "scoreMap_of F scores = fold (scoreMap_step F) scores Map.empty"

subsection \<open>The second loop: one ladder entry per team\<close>

text \<open>
  The inner loop over a team's round averages carries \<^verbatim>\<open>interviewScore\<close>,
  \<^verbatim>\<open>bestRound\<close> and \<^verbatim>\<open>bestFinal\<close>, all three decimals that start at zero. The
  argument \<open>cr\<close> is \<^verbatim>\<open>int32(team.CompetitionRounds)\<close>.
\<close>

fun score_loop ::
  "('f \<Rightarrow> decimal) \<Rightarrow> int \<Rightarrow> 'f RoundAverage list \<Rightarrow> decimal \<times> decimal \<times> decimal
     \<Rightarrow> decimal \<times> decimal \<times> decimal" where
  "score_loop D cr [] acc = acc"
| "score_loop D cr (score # rest) (interviewScore, bestRound, bestFinal) =
     (let dec = D (ra_Average score) in
      if ra_Round score = 0 then
        score_loop D cr rest (interviewScore + dec, bestRound, bestFinal)
      else if ra_Round score \<le> cr then
        score_loop D cr rest
          (interviewScore, if dec > bestRound then dec else bestRound, bestFinal)
      else if ra_Round score > cr then
        score_loop D cr rest
          (interviewScore, bestRound, if dec > bestFinal then dec else bestFinal)
      else score_loop D cr rest (interviewScore, bestRound, bestFinal))"

definition ladderEntry_of ::
  "(decimal \<Rightarrow> 'f::{linorder,zero}) \<Rightarrow> ('f \<Rightarrow> decimal) \<Rightarrow> (string \<rightharpoonup> 'f RoundAverage list)
     \<Rightarrow> ladderTeam \<Rightarrow> 'f LadderEntry" where
  "ladderEntry_of F D scoreMap team =
     (let pTeam = \<lparr>tm_Id = lt_ID team, tm_Name = lt_Name team,
                   tm_Institution = \<lparr>in_Id = lt_InstitutionID team, in_Name = lt_Institution team\<rparr>,
                   tm_Division = lt_DivisionID team\<rparr>;
          rounds = (case scoreMap (lt_ID team) of None \<Rightarrow> [] | Some scoreList \<Rightarrow> scoreList);
          (interviewScore, bestRound, bestFinal) =
             score_loop D (int32 (lt_CompetitionRounds team)) rounds (0, 0, 0);
          bestFinalFloat = F bestFinal
      in \<lparr>le_Team = pTeam,
          le_Rounds = rounds,
          le_InterviewScore = F interviewScore,
          le_BestRound = F bestRound,
          le_BestFinal = bestFinalFloat,
          le_RoundTotal = F (interviewScore + bestRound),
          le_FinalTotal = (if bestFinalFloat > 0 then F (interviewScore + bestFinal) else 0)\<rparr>)"

text \<open>
  \<^verbatim>\<open>ladderMap\<close> is a Go map from division id to the division's ladder. The function
  iterates over it at the end, so the model keeps it as an association list whose keys
  stand in the order of their first insertion. Go leaves the iteration order of a map
  open: the order of the ladders in the result is one of the orders Go may produce,
  and nothing below depends on it.
\<close>

definition new_DivisionLadder :: "ladderTeam \<Rightarrow> 'f DivisionLadder" where
  "new_DivisionLadder team =
     \<lparr>dl_Division = \<lparr>dv_Id = lt_DivisionID team, dv_Name = lt_Division team,
                      dv_League = ONSTAGE,
                      dv_CompetitionRounds = int32 (lt_CompetitionRounds team),
                      dv_FinalRounds = int32 (lt_FinalRounds team)\<rparr>,
      dl_Ladder = []\<rparr>"

definition ladderMap_step ::
  "(decimal \<Rightarrow> 'f::{linorder,zero}) \<Rightarrow> ('f \<Rightarrow> decimal) \<Rightarrow> (string \<rightharpoonup> 'f RoundAverage list)
     \<Rightarrow> ladderTeam \<Rightarrow> (string \<times> 'f DivisionLadder) list \<Rightarrow> (string \<times> 'f DivisionLadder) list" where
  "ladderMap_step F D scoreMap team ladderMap =
     (let ladderMap1 = (case map_of ladderMap (lt_DivisionID team) of
                          None \<Rightarrow> ladderMap @ [(lt_DivisionID team, new_DivisionLadder team)]
                        | Some _ \<Rightarrow> ladderMap);
          ladderEntry = ladderEntry_of F D scoreMap team
      in map (\<lambda>(k, ladder).
                if k = lt_DivisionID team
                then (k, ladder\<lparr>dl_Ladder := dl_Ladder ladder @ [ladderEntry]\<rparr>)
                else (k, ladder)) ladderMap1)"

definition ladderMap_of ::
  "(decimal \<Rightarrow> 'f::{linorder,zero}) \<Rightarrow> ('f \<Rightarrow> decimal) \<Rightarrow> (string \<rightharpoonup> 'f RoundAverage list)
     \<Rightarrow> ladderTeam list \<Rightarrow> (string \<times> 'f DivisionLadder) list" where
  "ladderMap_of F D scoreMap list = fold (ladderMap_step F D scoreMap) list []"

subsection \<open>The sort\<close>

text \<open>The comparison function handed to \<^verbatim>\<open>sort.SliceStable\<close>.\<close>

definition ladder_less :: "'f::linorder LadderEntry \<Rightarrow> 'f LadderEntry \<Rightarrow> bool" where
  "ladder_less a b =
     (if le_FinalTotal a < le_FinalTotal b then True
      else if le_FinalTotal a > le_FinalTotal b then False
      else if le_RoundTotal a < le_RoundTotal b then True
      else if le_RoundTotal a > le_RoundTotal b then False
      else tm_Name (le_Team a) < tm_Name (le_Team b))"

text \<open>
  \<^verbatim>\<open>sort.SliceStable\<close> belongs to Go's standard library. Its contract is that it
  sorts by the given \<^verbatim>\<open>less\<close> and keeps elements that \<^verbatim>\<open>less\<close> does not separate
  in their original order; for a \<^verbatim>\<open>less\<close> that is a strict weak order that contract
  fixes the result. The model is the stable insertion sort: an element goes in front
  of the first element that is not less than it.
\<close>

fun insert_stable :: "('a \<Rightarrow> 'a \<Rightarrow> bool) \<Rightarrow> 'a \<Rightarrow> 'a list \<Rightarrow> 'a list" where
  "insert_stable lt x [] = [x]"
| "insert_stable lt x (y # ys) =
     (if lt y x then y # insert_stable lt x ys else x # y # ys)"

definition SliceStable :: "('a \<Rightarrow> 'a \<Rightarrow> bool) \<Rightarrow> 'a list \<Rightarrow> 'a list" where
  "SliceStable lt xs = foldr (insert_stable lt) xs []"

subsection \<open>The function\<close>

text \<open>
  Both \<^verbatim>\<open>s.DB.Select\<close> calls are represented by their outcomes: the error of the
  driver, or the rows. \<open>ladders_of_rows\<close> is the code that runs once both have
  succeeded.
\<close>

definition ladders_of_rows ::
  "(decimal \<Rightarrow> 'f::{linorder,zero}) \<Rightarrow> ('f \<Rightarrow> decimal) \<Rightarrow> ladderTeam list \<Rightarrow> scoreCalc list
     \<Rightarrow> 'f DivisionLadder list" where
  "ladders_of_rows F D list scores =
     map (\<lambda>(k, v). v\<lparr>dl_Ladder := SliceStable ladder_less (dl_Ladder v)\<rparr>)
       (ladderMap_of F D (scoreMap_of F scores) list)"

definition FetchDanceLadders ::
  "(decimal \<Rightarrow> 'f::{linorder,zero}) \<Rightarrow> ('f \<Rightarrow> decimal) \<Rightarrow> bool
     \<Rightarrow> error + ladderTeam list \<Rightarrow> error + scoreCalc list
     \<Rightarrow> error + 'f DivisionLadder list" where
  "FetchDanceLadders F D showAll teamRows scoreRows =
     (case teamRows of
        Inl err \<Rightarrow> Inl (ErrorString (''Error fetching teams: '' @ Error err))
      | Inr list \<Rightarrow>
          (case scoreRows of
             Inl err \<Rightarrow> Inl (ErrorString (''Error fetching scores: '' @ Error err))
           | Inr scores \<Rightarrow> Inr (ladders_of_rows F D list scores)))"

section \<open>The store\<close>

text \<open>
  The tables of \<^verbatim>\<open>tables.sql\<close> that the modelled statements read or write, one
  record per row, a table being the list of its rows. Identifiers are opaque strings;
  the syntax check the database applies to a UUID literal is not modelled. The column
  \<^verbatim>\<open>timings\<close> holds the JSON array of name and value pairs that the code marshals
  and unmarshals; it is modelled by the list of pairs. A section value is the exact
  decimal it denotes.
\<close>

type_synonym uuid = string

record users_row =
  us_id :: uuid
  us_name :: string
  us_username :: string

record score_sheet_templates_row =
  st_id :: uuid
  st_name :: string
  st_type :: string

record score_sheet_template_sections_row =
  ts_id :: uuid
  ts_title :: string
  ts_score_sheet_template :: uuid
  ts_description :: string
  ts_max_value :: int
  ts_multiplier :: int
  ts_display_order :: int

record divisions_row =
  di_id :: uuid
  di_name :: string
  di_league :: string
  di_competition_rounds :: int
  di_final_rounds :: int

record institutions_row =
  is_id :: uuid
  is_name :: string

record teams_row =
  te_id :: uuid
  te_name :: string
  te_institution :: uuid
  te_division :: uuid

record score_sheets_row =
  ss_id :: uuid
  ss_division :: uuid
  ss_team :: uuid
  ss_template :: uuid
  ss_timings :: "(string \<times> string) list"
  ss_author :: uuid
  ss_comments :: string
  ss_round :: int
  ss_created_at :: nat

record score_sheet_sections_row =
  se_id :: uuid
  se_section :: uuid
  se_value :: decimal
  se_score_sheet :: uuid

text \<open>
  Besides the tables the state holds the clock that \<^verbatim>\<open>current_timestamp()\<close> reads
  and one fact about the driver that the repository does not fix: the error, if any,
  with which it answers a statement whose text is empty.
\<close>

record db =
  users :: "users_row list"
  score_sheet_templates :: "score_sheet_templates_row list"
  score_sheet_template_sections :: "score_sheet_template_sections_row list"
  divisions :: "divisions_row list"
  institutions :: "institutions_row list"
  teams :: "teams_row list"
  score_sheets :: "score_sheets_row list"
  score_sheet_sections :: "score_sheet_sections_row list"
  current_timestamp :: nat
  empty_statement_error :: "string option"

subsection \<open>The two queries of \<^verbatim>\<open>FetchDanceLadders\<close>\<close>

text \<open>
  The first query joins \<^verbatim>\<open>teams\<close>, \<^verbatim>\<open>institutions\<close> and \<^verbatim>\<open>divisions\<close> and
  keeps the rows whose division has the league \<^verbatim>\<open>On Stage\<close>. SQL leaves the order
  of the rows open; the model produces them in the order of a nested loop.
\<close>

definition select_ladderTeams :: "db \<Rightarrow> ladderTeam list" where
  "select_ladderTeams s =
     [\<lparr>lt_ID = te_id t, lt_Name = te_name t,
       lt_Institution = is_name i, lt_InstitutionID = is_id i,
       lt_DivisionID = di_id d, lt_Division = di_name d,
       lt_CompetitionRounds = di_competition_rounds d,
       lt_FinalRounds = di_final_rounds d\<rparr>.
      t \<leftarrow> teams s,
      i \<leftarrow> institutions s, te_institution t = is_id i,
      d \<leftarrow> divisions s, te_division t = di_id d,
      di_league d = ''On Stage'']"

text \<open>
  The inner query of the second: per score sheet, the sum of \<^verbatim>\<open>value * multiplier\<close>
  over the sheet's sections joined with their template sections. A sheet with no
  joined section has no row. \<open>sheet_sections\<close> are the joined rows of one sheet.
\<close>

definition sheet_sections ::
  "db \<Rightarrow> uuid \<Rightarrow> (score_sheet_sections_row \<times> score_sheet_template_sections_row) list" where
  "sheet_sections s sid =
     [(sec, ts).
      sec \<leftarrow> score_sheet_sections s, se_score_sheet sec = sid,
      ts \<leftarrow> score_sheet_template_sections s, se_section sec = ts_id ts]"

definition sheet_totals :: "db \<Rightarrow> (uuid \<times> decimal) list" where
  "sheet_totals s =
     [(ss_id sh, (\<Sum>(sec, ts) \<leftarrow> sheet_sections s (ss_id sh). se_value sec * of_int (ts_multiplier ts))).
      sh \<leftarrow> score_sheets s, sheet_sections s (ss_id sh) \<noteq> []]"

text \<open>
  The outer query joins the totals back to \<^verbatim>\<open>score_sheets\<close> and groups by team
  and round: the average of the totals and the number of sheets. The average is the
  exact quotient; the finite precision of the database's \<^verbatim>\<open>AVG\<close> is not modelled.
\<close>

definition team_round_totals :: "db \<Rightarrow> (uuid \<times> int \<times> decimal) list" where
  "team_round_totals s =
     [(ss_team sh, ss_round sh, tot).
      (sid, tot) \<leftarrow> sheet_totals s,
      sh \<leftarrow> score_sheets s, ss_id sh = sid]"

definition select_scoreCalcs :: "db \<Rightarrow> scoreCalc list" where
  "select_scoreCalcs s =
     (let joined = team_round_totals s in
      [(let totals = [tot. (t', r', tot) \<leftarrow> joined, t' = t \<and> r' = r] in
        \<lparr>sc_Team = t, sc_Round = r,
         sc_Average = sum_list totals / of_nat (length totals),
         sc_Count = int (length totals)\<rparr>).
       (t, r) \<leftarrow> remdups (map (\<lambda>(t, r, tot). (t, r)) joined)])"

definition FetchDanceLadders_db ::
  "(decimal \<Rightarrow> 'f::{linorder,zero}) \<Rightarrow> ('f \<Rightarrow> decimal) \<Rightarrow> db \<Rightarrow> bool
     \<Rightarrow> error + 'f DivisionLadder list" where
  "FetchDanceLadders_db F D s showAll =
     FetchDanceLadders F D showAll (Inr (select_ladderTeams s)) (Inr (select_scoreCalcs s))"

subsection \<open>Notions used to state the properties of the ladder\<close>

text \<open>
  The three sort keys of an entry, and the order the specification describes:
  ascending final total, then ascending round total, then the team name.
\<close>

definition ladder_key :: "'f LadderEntry \<Rightarrow> 'f \<times> 'f \<times> string" where
  "ladder_key e = (le_FinalTotal e, le_RoundTotal e, tm_Name (le_Team e))"

definition ladder_before :: "'f::linorder LadderEntry \<Rightarrow> 'f LadderEntry \<Rightarrow> bool" where
  "ladder_before a b \<longleftrightarrow>
     le_FinalTotal a < le_FinalTotal b \<or>
     (le_FinalTotal a = le_FinalTotal b \<and>
       (le_RoundTotal a < le_RoundTotal b \<or>
        (le_RoundTotal a = le_RoundTotal b \<and> tm_Name (le_Team a) \<le> tm_Name (le_Team b))))"

text \<open>
  The entries of division \<open>k\<close> in the order of the team rows: what the second loop
  appends to the division's ladder, and so the input of the sort.
\<close>

definition division_entries ::
  "(decimal \<Rightarrow> 'f::{linorder,zero}) \<Rightarrow> ('f \<Rightarrow> decimal) \<Rightarrow> ladderTeam list \<Rightarrow> scoreCalc list
     \<Rightarrow> string \<Rightarrow> 'f LadderEntry list" where
  "division_entries F D list scores k =
     map (ladderEntry_of F D (scoreMap_of F scores)) (filter (\<lambda>t. lt_DivisionID t = k) list)"

text \<open>The round averages the first loop stores for a team.\<close>

definition team_rounds :: "(decimal \<Rightarrow> 'f) \<Rightarrow> scoreCalc list \<Rightarrow> string \<Rightarrow> 'f RoundAverage list" where
  "team_rounds F scores team = map (roundAverage F) (filter (\<lambda>s. sc_Team s = team) scores)"

text \<open>The specification's maximum with its default: 0 when there is nothing to take it of.\<close>

definition max_or_zero :: "decimal list \<Rightarrow> decimal" where
  "max_or_zero xs = (if xs = [] then 0 else Max (set xs))"

text \<open>
  The aggregation as the specification words it, over the exact averages of the
  query and with one conversion at the end. It is stated here to be compared with
  what the function computes.
\<close>

definition exact_interview :: "scoreCalc list \<Rightarrow> string \<Rightarrow> decimal" where
  "exact_interview scores team =
     (\<Sum>s \<leftarrow> filter (\<lambda>s. sc_Team s = team \<and> int32 (sc_Round s) = 0) scores. sc_Average s)"

definition exact_best_round :: "int \<Rightarrow> scoreCalc list \<Rightarrow> string \<Rightarrow> decimal" where
  "exact_best_round cr scores team =
     max_or_zero (map sc_Average
       (filter (\<lambda>s. sc_Team s = team \<and> 1 \<le> int32 (sc_Round s) \<and> int32 (sc_Round s) \<le> cr) scores))"

definition exact_round_total :: "(decimal \<Rightarrow> 'f) \<Rightarrow> int \<Rightarrow> scoreCalc list \<Rightarrow> string \<Rightarrow> 'f" where
  "exact_round_total F cr scores team =
     F (exact_interview scores team + exact_best_round cr scores team)"

text \<open>
  The ladder of division \<open>k\<close> as the function returns it: the header made from the
  first team row of the division, and the sorted entries.
\<close>

definition the_ladder ::
  "(decimal \<Rightarrow> 'f::{linorder,zero}) \<Rightarrow> ('f \<Rightarrow> decimal) \<Rightarrow> ladderTeam list \<Rightarrow> scoreCalc list
     \<Rightarrow> string \<Rightarrow> 'f DivisionLadder" where
  "the_ladder F D list scores k =
     \<lparr>dl_Division =
        dl_Division (new_DivisionLadder (hd (filter (\<lambda>t. lt_DivisionID t = k) list)) :: 'f DivisionLadder),
      dl_Ladder = SliceStable ladder_less (division_entries F D list scores k)\<rparr>"

text \<open>
  The derived quantities as the specification defines them from a team's round
  averages: the sum over round 0, the best of the rounds 1 to \<open>N1\<close>, the best of the
  rounds above \<open>N1\<close>. The averages are read from the floats by \<open>D\<close>.
\<close>

definition spec_interview :: "('f \<Rightarrow> decimal) \<Rightarrow> 'f RoundAverage list \<Rightarrow> decimal" where
  "spec_interview D rounds = (\<Sum>r \<leftarrow> filter (\<lambda>r. ra_Round r = 0) rounds. D (ra_Average r))"

definition spec_best_round :: "('f \<Rightarrow> decimal) \<Rightarrow> int \<Rightarrow> 'f RoundAverage list \<Rightarrow> decimal" where
  "spec_best_round D N1 rounds =
     max_or_zero (map (\<lambda>r. D (ra_Average r)) (filter (\<lambda>r. 1 \<le> ra_Round r \<and> ra_Round r \<le> N1) rounds))"

definition spec_best_final :: "('f \<Rightarrow> decimal) \<Rightarrow> int \<Rightarrow> 'f RoundAverage list \<Rightarrow> decimal" where
  "spec_best_final D N1 rounds =
     max_or_zero (map (\<lambda>r. D (ra_Average r)) (filter (\<lambda>r. N1 < ra_Round r) rounds))"

text \<open>
  What the function aggregates: the decimal read back from the float of an average
  that was rounded to two places.
\<close>

definition stored_average :: "(decimal \<Rightarrow> 'f) \<Rightarrow> ('f \<Rightarrow> decimal) \<Rightarrow> scoreCalc \<Rightarrow> decimal" where
  "stored_average F D s = D (F (Round2 (sc_Average s)))"


subsection \<open>Example data\<close>

text \<open>
  The scenario of the specification: a division with two competition rounds and one
  final round; team A with the averages 80 (interview), 70, 90 and 85 (final), team B
  with the interview average 75 only.
\<close>

definition ex_teams :: "ladderTeam list" where
  "ex_teams =
     [\<lparr>lt_ID = ''a'', lt_Name = ''Team A'', lt_Institution = ''School'', lt_InstitutionID = ''i'',
       lt_DivisionID = ''d'', lt_Division = ''Dance'', lt_CompetitionRounds = 2, lt_FinalRounds = 1\<rparr>,
      \<lparr>lt_ID = ''b'', lt_Name = ''Team B'', lt_Institution = ''School'', lt_InstitutionID = ''i'',
       lt_DivisionID = ''d'', lt_Division = ''Dance'', lt_CompetitionRounds = 2, lt_FinalRounds = 1\<rparr>]"

definition ex_scores :: "scoreCalc list" where
  "ex_scores =
     [\<lparr>sc_Team = ''a'', sc_Round = 0, sc_Average = 80, sc_Count = 1\<rparr>,
      \<lparr>sc_Team = ''a'', sc_Round = 1, sc_Average = 70, sc_Count = 1\<rparr>,
      \<lparr>sc_Team = ''a'', sc_Round = 2, sc_Average = 90, sc_Count = 1\<rparr>,
      \<lparr>sc_Team = ''a'', sc_Round = 3, sc_Average = 85, sc_Count = 1\<rparr>,
      \<lparr>sc_Team = ''b'', sc_Round = 0, sc_Average = 75, sc_Count = 1\<rparr>]"

text \<open>
  A store with one On Stage division, one team and two score sheets of one section
  each: an interview sheet with the value 80.004 and a sheet of round 1 with the value
  90.004, both with the multiplier 1.
\<close>

definition ex_db :: db where
  "ex_db =
     \<lparr>users = [\<lparr>us_id = ''u'', us_name = ''Judge'', us_username = ''judge''\<rparr>],
      score_sheet_templates = [\<lparr>st_id = ''tp'', st_name = ''Sheet'', st_type = ''Interview''\<rparr>],
      score_sheet_template_sections =
        [\<lparr>ts_id = ''c'', ts_title = ''Criterion'', ts_score_sheet_template = ''tp'',
          ts_description = ''Text'', ts_max_value = 100, ts_multiplier = 1, ts_display_order = 0\<rparr>],
      divisions =
        [\<lparr>di_id = ''d'', di_name = ''Dance'', di_league = ''On Stage'',
          di_competition_rounds = 2, di_final_rounds = 1\<rparr>],
      institutions = [\<lparr>is_id = ''i'', is_name = ''School''\<rparr>],
      teams = [\<lparr>te_id = ''a'', te_name = ''Team A'', te_institution = ''i'', te_division = ''d''\<rparr>],
      score_sheets =
        [\<lparr>ss_id = ''s0'', ss_division = ''d'', ss_team = ''a'', ss_template = ''tp'',
          ss_timings = [], ss_author = ''u'', ss_comments = ''ok'', ss_round = 0, ss_created_at = 1\<rparr>,
         \<lparr>ss_id = ''s1'', ss_division = ''d'', ss_team = ''a'', ss_template = ''tp'',
          ss_timings = [], ss_author = ''u'', ss_comments = ''ok'', ss_round = 1, ss_created_at = 2\<rparr>],
      score_sheet_sections =
        [\<lparr>se_id = ''x0'', se_section = ''c'', se_value = 80004 / 1000, se_score_sheet = ''s0''\<rparr>,
         \<lparr>se_id = ''x1'', se_section = ''c'', se_value = 90004 / 1000, se_score_sheet = ''s1''\<rparr>],
      current_timestamp = 3,
      empty_statement_error = None\<rparr>"

section \<open>The score sheet repository\<close>

subsection \<open>Messages and rows\<close>

text \<open>
  The protobuf messages of a score sheet with the fields the store reads or fills.
  A message behind a nil pointer reads, through its getters, as the message with
  every field at its zero value, and that is how it is modelled. A timing is the pair
  of its name and its value.
\<close>

datatype TemplateType = INTERVIEW | PERFORMANCE

record pbUser =
  ur_Id :: string
  ur_Name :: string
  ur_Username :: string

record pbScoreSheetSection =
  sn_Id :: string
  sn_Title :: string
  sn_Description :: string
  sn_MaxValue :: int
  sn_Multiplier :: int
  sn_SectionId :: string
  sn_Value :: decimal

record pbScoreSheet =
  sh_Id :: string
  sh_ScoreSheetTemplateId :: string
  sh_Comments :: string
  sh_Round :: int
  sh_Team :: pbTeam
  sh_Author :: pbUser
  sh_Sections :: "pbScoreSheetSection list"
  sh_Timings :: "(string \<times> string) list"
  sh_DivisionId :: string
  sh_Type :: TemplateType

text \<open>The value \<^verbatim>\<open>&rcjpb.ScoreSheet{}\<close> that \<^verbatim>\<open>CreateScoreSheet\<close> hands to the mutator.\<close>

definition empty_ScoreSheet :: pbScoreSheet where
  "empty_ScoreSheet =
     \<lparr>sh_Id = [], sh_ScoreSheetTemplateId = [], sh_Comments = [], sh_Round = 0,
      sh_Team = \<lparr>tm_Id = [], tm_Name = [],
                 tm_Institution = \<lparr>in_Id = [], in_Name = []\<rparr>, tm_Division = []\<rparr>,
      sh_Author = \<lparr>ur_Id = [], ur_Name = [], ur_Username = []\<rparr>,
      sh_Sections = [], sh_Timings = [], sh_DivisionId = [], sh_Type = INTERVIEW\<rparr>"

text \<open>
  A mutator is the function the caller passes in: it changes the sheet in place and
  returns an error or nil. The model returns the error or the changed sheet.
\<close>

type_synonym mutator = "pbScoreSheet \<Rightarrow> error + pbScoreSheet"

text \<open>The row types declared inside \<^verbatim>\<open>FetchScoreSheet\<close>.\<close>

record dbScoreSheet =
  h_ID :: string
  h_TemplateID :: string
  h_Type :: string
  h_Comments :: string
  h_Timings :: "(string \<times> string) list"
  h_TeamID :: string
  h_Division :: string
  h_Team :: string
  h_Round :: int
  h_InstitutionID :: string
  h_InstitutionName :: string
  h_AuthorID :: string
  h_AuthorName :: string
  h_AuthorUsername :: string

record dbScoreSheetSection =
  s_ID :: string
  s_Title :: string
  s_Description :: string
  s_MaxValue :: int
  s_Multiplier :: int
  s_SectionID :: string
  s_Value :: decimal

subsection \<open>\<^verbatim>\<open>FetchScoreSheet\<close>\<close>

text \<open>
  The header query joins the sheet with its template, its team, the team's
  institution and its author; the section query joins the sheet's sections with their
  template sections and orders them by \<^verbatim>\<open>display_order\<close>. Rows that agree on
  \<^verbatim>\<open>display_order\<close> are left in the order of the nested loop.
\<close>

definition sheetQuery :: "db \<Rightarrow> uuid \<Rightarrow> dbScoreSheet list" where
  "sheetQuery s ident =
     [\<lparr>h_ID = ss_id sh, h_TemplateID = ss_template sh, h_Type = st_type tp,
       h_Comments = ss_comments sh, h_Timings = ss_timings sh, h_TeamID = ss_team sh,
       h_Division = ss_division sh, h_Team = te_name t, h_Round = ss_round sh,
       h_InstitutionID = is_id i, h_InstitutionName = is_name i,
       h_AuthorID = us_id u, h_AuthorName = us_name u, h_AuthorUsername = us_username u\<rparr>.
      sh \<leftarrow> score_sheets s,
      tp \<leftarrow> score_sheet_templates s, ss_template sh = st_id tp,
      t \<leftarrow> teams s, ss_team sh = te_id t,
      i \<leftarrow> institutions s, te_institution t = is_id i,
      u \<leftarrow> users s, us_id u = ss_author sh,
      ss_id sh = ident]"

definition sectionQuery :: "db \<Rightarrow> uuid \<Rightarrow> dbScoreSheetSection list" where
  "sectionQuery s ident =
     map fst (sort_key snd
       [(\<lparr>s_ID = se_id sec, s_Title = ts_title ts, s_Description = ts_description ts,
          s_MaxValue = ts_max_value ts, s_Multiplier = ts_multiplier ts,
          s_SectionID = se_section sec, s_Value = se_value sec\<rparr>, ts_display_order ts).
        sec \<leftarrow> score_sheet_sections s,
        ts \<leftarrow> score_sheet_template_sections s, ts_id ts = se_section sec,
        se_score_sheet sec = ident])"

text \<open>
  \<^verbatim>\<open>Get\<close> of sqlx scans the first row of a result and answers an empty result
  with \<^verbatim>\<open>sql.ErrNoRows\<close>.
\<close>

definition Get :: "'a list \<Rightarrow> error + 'a" where
  "Get rows = (case rows of [] \<Rightarrow> Inl ErrNoRows | r # _ \<Rightarrow> Inr r)"

text \<open>
  The two queries run as two tasks of an \<^verbatim>\<open>errgroup\<close>. Each task ends with an
  error or with its rows; \<^verbatim>\<open>Wait\<close> returns once both have ended, with the error of
  the task that failed first, or nil. The order in which the tasks end is the only
  thing the scheduler decides that the function can observe, and it is a parameter.
\<close>

datatype schedule = HeaderFirst | SectionsFirst

definition group_Wait :: "schedule \<Rightarrow> error + 'a \<Rightarrow> error + 'b \<Rightarrow> error option" where
  "group_Wait sched header sections =
     (case sched of
        HeaderFirst \<Rightarrow>
          (case header of
             Inl err \<Rightarrow> Some err
           | Inr _ \<Rightarrow> (case sections of Inl err \<Rightarrow> Some err | Inr _ \<Rightarrow> None))
      | SectionsFirst \<Rightarrow>
          (case sections of
             Inl err \<Rightarrow> Some err
           | Inr _ \<Rightarrow> (case header of Inl err \<Rightarrow> Some err | Inr _ \<Rightarrow> None)))"

text \<open>The composite message built from the header row and the section rows.\<close>

definition pbSection_of :: "dbScoreSheetSection \<Rightarrow> pbScoreSheetSection" where
  "pbSection_of section =
     \<lparr>sn_Id = s_ID section, sn_Title = s_Title section, sn_Description = s_Description section,
      sn_MaxValue = int32 (s_MaxValue section), sn_Multiplier = int32 (s_Multiplier section),
      sn_SectionId = s_SectionID section, sn_Value = s_Value section\<rparr>"

definition pbScoreSheet_of :: "dbScoreSheet \<Rightarrow> dbScoreSheetSection list \<Rightarrow> pbScoreSheet" where
  "pbScoreSheet_of scoreSheet sections =
     \<lparr>sh_Id = h_ID scoreSheet,
      sh_ScoreSheetTemplateId = h_TemplateID scoreSheet,
      sh_Comments = h_Comments scoreSheet,
      sh_Round = int32 (h_Round scoreSheet),
      sh_Team = \<lparr>tm_Id = h_TeamID scoreSheet, tm_Name = h_Team scoreSheet,
                 tm_Institution = \<lparr>in_Id = h_InstitutionID scoreSheet,
                                   in_Name = h_InstitutionName scoreSheet\<rparr>,
                 tm_Division = h_Division scoreSheet\<rparr>,
      sh_Author = \<lparr>ur_Id = h_AuthorID scoreSheet, ur_Name = h_AuthorName scoreSheet,
                   ur_Username = h_AuthorUsername scoreSheet\<rparr>,
      sh_Sections = map pbSection_of sections,
      sh_Timings = h_Timings scoreSheet,
      sh_DivisionId = h_Division scoreSheet,
      sh_Type = (if h_Type scoreSheet = ''Interview'' then INTERVIEW else PERFORMANCE)\<rparr>"

text \<open>
  The function from \<^verbatim>\<open>group.Wait()\<close> on, given the outcomes of the two tasks. The
  variables \<^verbatim>\<open>scoreSheet\<close> and \<^verbatim>\<open>sections\<close> hold what the tasks that succeeded
  have assigned: \<^verbatim>\<open>scoreSheet\<close> starts as nil, \<^verbatim>\<open>sections\<close> as the empty slice.
  The result is Go's pair of a sheet pointer and an error: the error, or the pointer,
  which may be nil.
\<close>

definition FetchScoreSheet_join ::
  "schedule \<Rightarrow> error + dbScoreSheet \<Rightarrow> error + dbScoreSheetSection list
     \<Rightarrow> error + pbScoreSheet option" where
  "FetchScoreSheet_join sched header sections =
     (let scoreSheet = (case header of Inl _ \<Rightarrow> None | Inr fetchedSheet \<Rightarrow> Some fetchedSheet);
          sections' = (case sections of Inl _ \<Rightarrow> [] | Inr fetchedSections \<Rightarrow> fetchedSections)
      in case group_Wait sched header sections of
           Some err \<Rightarrow> Inl (ErrorString (''Error fetching: '' @ Error err))
         | None \<Rightarrow>
             (case scoreSheet of
                None \<Rightarrow> Inr None
              | Some sh \<Rightarrow> Inr (Some (pbScoreSheet_of sh sections'))))"

text \<open>
  On the store: the header task is \<^verbatim>\<open>Get\<close> on the header query, the section task
  is \<^verbatim>\<open>Select\<close> on the section query, which answers an empty result with the empty
  list. Inside a transaction the same statements read the state of the transaction.
\<close>

definition FetchScoreSheet :: "schedule \<Rightarrow> db \<Rightarrow> uuid \<Rightarrow> error + pbScoreSheet option" where
  "FetchScoreSheet sched s ident =
     FetchScoreSheet_join sched (Get (sheetQuery s ident)) (Inr (sectionQuery s ident))"

subsection \<open>The statements that write\<close>

text \<open>
  \<^verbatim>\<open>gen_random_uuid()\<close> gives a row an identifier that no row of the table has. The
  model picks one such identifier from the identifiers in use.
\<close>

definition gen_random_uuid :: "uuid list \<Rightarrow> uuid" where
  "gen_random_uuid used = replicate (Suc (foldr (\<lambda>u n. max (length u) n) used 0)) (CHR ''0'')"

text \<open>
  A statement fails when a row it writes breaks a foreign key of \<^verbatim>\<open>tables.sql\<close>.
  The message stands for the driver's.
\<close>

definition fk_violation :: "string \<Rightarrow> error" where
  "fk_violation column = PqError (''foreign key violation: '' @ column)"

text \<open>
  \<^verbatim>\<open>INSERT INTO score_sheets (division, team, template, timings, comments, round,
  author) VALUES (...) RETURNING "id"\<close>: the identifiers of the rows inserted, and the
  new state.
\<close>

definition insert_score_sheet ::
  "db \<Rightarrow> uuid \<Rightarrow> uuid \<Rightarrow> uuid \<Rightarrow> (string \<times> string) list \<Rightarrow> string \<Rightarrow> int \<Rightarrow> uuid
     \<Rightarrow> error + (uuid list \<times> db)" where
  "insert_score_sheet tx division team template timings comments round' author =
     (if division \<notin> set (map di_id (divisions tx)) then Inl (fk_violation ''score_sheets.division'')
      else if team \<notin> set (map te_id (teams tx)) then Inl (fk_violation ''score_sheets.team'')
      else if template \<notin> set (map st_id (score_sheet_templates tx))
        then Inl (fk_violation ''score_sheets.template'')
      else if author \<notin> set (map us_id (users tx)) then Inl (fk_violation ''score_sheets.author'')
      else
        (let ident = gen_random_uuid (map ss_id (score_sheets tx)) in
         Inr ([ident],
              tx\<lparr>score_sheets := score_sheets tx @
                    [\<lparr>ss_id = ident, ss_division = division, ss_team = team,
                      ss_template = template, ss_timings = timings, ss_author = author,
                      ss_comments = comments, ss_round = round',
                      ss_created_at = current_timestamp tx\<rparr>]\<rparr>)))"

text \<open>
  \<^verbatim>\<open>INSERT INTO score_sheet_sections (section, value, score_sheet) VALUES ...\<close> with
  one value row per section. With no section the builder has no value row; it returns
  an error, which the code drops, and an empty statement text, which the code
  executes. What the driver answers to that is the parameter
  \<open>empty_statement_error\<close> of the state.
\<close>

fun insert_section_rows ::
  "(uuid \<times> decimal \<times> uuid) list \<Rightarrow> score_sheet_sections_row list \<Rightarrow> score_sheet_sections_row list" where
  "insert_section_rows [] tbl = tbl"
| "insert_section_rows ((section, v, sheet) # rest) tbl =
     insert_section_rows rest
       (tbl @ [\<lparr>se_id = gen_random_uuid (map se_id tbl), se_section = section,
                 se_value = v, se_score_sheet = sheet\<rparr>])"

definition insert_score_sheet_sections :: "db \<Rightarrow> (uuid \<times> decimal \<times> uuid) list \<Rightarrow> error + db" where
  "insert_score_sheet_sections tx rows =
     (if rows = [] then
        (case empty_statement_error tx of Some msg \<Rightarrow> Inl (PqError msg) | None \<Rightarrow> Inr tx)
      else if \<exists>(section, v, sheet) \<in> set rows.
                section \<notin> set (map ts_id (score_sheet_template_sections tx))
        then Inl (fk_violation ''score_sheet_sections.section'')
      else if \<exists>(section, v, sheet) \<in> set rows. sheet \<notin> set (map ss_id (score_sheets tx))
        then Inl (fk_violation ''score_sheet_sections.score_sheet'')
      else Inr (tx\<lparr>score_sheet_sections := insert_section_rows rows (score_sheet_sections tx)\<rparr>))"

text \<open>\<^verbatim>\<open>UPDATE score_sheets SET comments = _, team = _, timings = _ WHERE id = _\<close>.\<close>

definition update_score_sheet ::
  "db \<Rightarrow> uuid \<Rightarrow> uuid \<Rightarrow> (string \<times> string) list \<Rightarrow> string \<Rightarrow> error + db" where
  "update_score_sheet tx ident team timings comments =
     (if (\<exists>sh \<in> set (score_sheets tx). ss_id sh = ident) \<and> team \<notin> set (map te_id (teams tx))
      then Inl (fk_violation ''score_sheets.team'')
      else Inr (tx\<lparr>score_sheets :=
                  map (\<lambda>sh. if ss_id sh = ident
                             then sh\<lparr>ss_team := team, ss_timings := timings, ss_comments := comments\<rparr>
                             else sh) (score_sheets tx)\<rparr>))"

text \<open>\<^verbatim>\<open>UPDATE score_sheet_sections SET value = _ WHERE id = _\<close>.\<close>

definition update_score_sheet_section :: "db \<Rightarrow> uuid \<Rightarrow> decimal \<Rightarrow> error + db" where
  "update_score_sheet_section tx ident v =
     Inr (tx\<lparr>score_sheet_sections :=
               map (\<lambda>sec. if se_id sec = ident then sec\<lparr>se_value := v\<rparr> else sec)
                 (score_sheet_sections tx)\<rparr>)"

subsection \<open>Transactions\<close>

text \<open>
  \<^verbatim>\<open>crdb.ExecuteTxx\<close> belongs to a library. Its contract, for one transaction that
  no other transaction disturbs: it runs the closure on the state of the store; when
  the closure returns nil it commits, and the state the closure reached is the new
  state of the store; when the closure returns an error it rolls back, the state of
  the store is what it was, and the error is returned as it is. A closure also
  assigns variables of the enclosing function, which no rollback undoes; they are the
  second component of what it returns. The retry after a serialization conflict
  concerns transactions that run at the same time and is outside this model.
\<close>

definition ExecuteTxx :: "db \<Rightarrow> (db \<Rightarrow> error option \<times> 'a \<times> db) \<Rightarrow> error option \<times> 'a \<times> db" where
  "ExecuteTxx s fn =
     (case fn s of
        (None, captured, tx) \<Rightarrow> (None, captured, tx)
      | (Some err, captured, tx) \<Rightarrow> (Some err, captured, s))"

subsection \<open>\<^verbatim>\<open>CreateScoreSheet\<close>\<close>

text \<open>
  The closure. The variable it assigns is \<^verbatim>\<open>scoreSheetID\<close>, empty at the start and
  set by the loop that scans the identifiers the header insert returns. Marshalling
  the timings cannot fail and has no branch.
\<close>

definition section_values :: "pbScoreSheet \<Rightarrow> uuid \<Rightarrow> (uuid \<times> decimal \<times> uuid) list" where
  "section_values scoreSheet scoreSheetID =
     map (\<lambda>section. (sn_SectionId section, sn_Value section, scoreSheetID)) (sh_Sections scoreSheet)"

definition insert_header :: "db \<Rightarrow> pbScoreSheet \<Rightarrow> error + (uuid list \<times> db)" where
  "insert_header tx scoreSheet =
     insert_score_sheet tx
       (sh_DivisionId scoreSheet) (tm_Id (sh_Team scoreSheet))
       (sh_ScoreSheetTemplateId scoreSheet) (sh_Timings scoreSheet)
       (sh_Comments scoreSheet) (sh_Round scoreSheet) (ur_Id (sh_Author scoreSheet))"

definition CreateScoreSheet_txn :: "mutator \<Rightarrow> db \<Rightarrow> error option \<times> uuid \<times> db" where
  "CreateScoreSheet_txn handler tx =
     (case handler empty_ScoreSheet of
        Inl handlerError \<Rightarrow> (Some handlerError, [], tx)
      | Inr scoreSheet \<Rightarrow>
          (case insert_header tx scoreSheet of
             Inl err \<Rightarrow> (Some err, [], tx)
           | Inr (ssRows, tx1) \<Rightarrow>
               (let scoreSheetID = fold (\<lambda>ident _. ident) ssRows [] in
                case insert_score_sheet_sections tx1 (section_values scoreSheet scoreSheetID) of
                  Inl err \<Rightarrow> (Some err, scoreSheetID, tx1)
                | Inr tx2 \<Rightarrow> (None, scoreSheetID, tx2))))"

text \<open>The function returns Go's pair of sheet and error, and leaves the store in a new state.\<close>

definition CreateScoreSheet ::
  "schedule \<Rightarrow> db \<Rightarrow> mutator \<Rightarrow> (error + pbScoreSheet option) \<times> db" where
  "CreateScoreSheet sched s handler =
     (case ExecuteTxx s (CreateScoreSheet_txn handler) of
        (Some err, scoreSheetID, s') \<Rightarrow> (Inl err, s')
      | (None, scoreSheetID, s') \<Rightarrow> (FetchScoreSheet sched s' scoreSheetID, s'))"

subsection \<open>\<^verbatim>\<open>UpdateScoreSheet\<close>\<close>

text \<open>The loop over the sections of the mutated sheet: it stops at the first error.\<close>

fun update_sections :: "pbScoreSheetSection list \<Rightarrow> db \<Rightarrow> error option \<times> db" where
  "update_sections [] tx = (None, tx)"
| "update_sections (section # rest) tx =
     (case update_score_sheet_section tx (sn_Id section) (sn_Value section) of
        Inl err \<Rightarrow> (Some err, tx)
      | Inr tx1 \<Rightarrow> update_sections rest tx1)"

text \<open>
  The closure. \<^verbatim>\<open>FetchScoreSheet\<close> never returns a nil sheet with a nil error (see
  \<open>FetchScoreSheet_not_nil\<close> below), so the mutator is never handed nil; the model
  ends that branch with the error of the nil dereference that would follow.
\<close>

definition UpdateScoreSheet_txn ::
  "schedule \<Rightarrow> uuid \<Rightarrow> mutator \<Rightarrow> db \<Rightarrow> error option \<times> unit \<times> db" where
  "UpdateScoreSheet_txn sched scoreSheetId handler tx =
     (case FetchScoreSheet sched tx scoreSheetId of
        Inl err \<Rightarrow> (Some err, (), tx)
      | Inr None \<Rightarrow> (Some (ErrorString ''invalid memory address or nil pointer dereference''), (), tx)
      | Inr (Some fetched) \<Rightarrow>
          (case handler fetched of
             Inl handlerError \<Rightarrow> (Some handlerError, (), tx)
           | Inr scoreSheet \<Rightarrow>
               (case update_score_sheet tx scoreSheetId (tm_Id (sh_Team scoreSheet))
                       (sh_Timings scoreSheet) (sh_Comments scoreSheet) of
                  Inl err \<Rightarrow> (Some err, (), tx)
                | Inr tx1 \<Rightarrow>
                    (case update_sections (sh_Sections scoreSheet) tx1 of
                       (err, tx2) \<Rightarrow> (err, (), tx2)))))"

text \<open>
  The two calls of \<^verbatim>\<open>FetchScoreSheet\<close>, inside the transaction and after it, have
  each their own schedule.
\<close>

definition UpdateScoreSheet ::
  "schedule \<Rightarrow> schedule \<Rightarrow> db \<Rightarrow> uuid \<Rightarrow> mutator \<Rightarrow> (error + pbScoreSheet option) \<times> db" where
  "UpdateScoreSheet sched sched' s scoreSheetId handler =
     (case ExecuteTxx s (UpdateScoreSheet_txn sched scoreSheetId handler) of
        (Some err, _, s') \<Rightarrow> (Inl err, s')
      | (None, _, s') \<Rightarrow> (FetchScoreSheet sched' s' scoreSheetId, s'))"

subsection \<open>Notions used to state the properties of the repository\<close>

text \<open>
  What an update must leave alone: of a sheet row everything but team, timings and
  comments; of a section row everything but the value; and every other table.
\<close>

definition header_frame :: "score_sheets_row \<Rightarrow> uuid \<times> uuid \<times> uuid \<times> uuid \<times> int \<times> nat" where
  "header_frame sh =
     (ss_id sh, ss_division sh, ss_template sh, ss_author sh, ss_round sh, ss_created_at sh)"

definition section_frame :: "score_sheet_sections_row \<Rightarrow> uuid \<times> uuid \<times> uuid" where
  "section_frame sec = (se_id sec, se_section sec, se_score_sheet sec)"

definition other_tables ::
  "db \<Rightarrow> users_row list \<times> score_sheet_templates_row list \<times> score_sheet_template_sections_row list
     \<times> divisions_row list \<times> institutions_row list \<times> teams_row list \<times> nat \<times> string option" where
  "other_tables s =
     (users s, score_sheet_templates s, score_sheet_template_sections s, divisions s,
      institutions s, teams s, current_timestamp s, empty_statement_error s)"

text \<open>
  The error \<^verbatim>\<open>FetchScoreSheet\<close> makes of \<^verbatim>\<open>sql.ErrNoRows\<close>: this is how a sheet
  that does not exist shows.
\<close>

definition no_rows_error :: error where
  "no_rows_error = ErrorString (''Error fetching: '' @ Error ErrNoRows)"

text \<open>The number of section rows of a sheet.\<close>

definition section_count :: "db \<Rightarrow> uuid \<Rightarrow> nat" where
  "section_count s ident = length (filter (\<lambda>sec. se_score_sheet sec = ident) (score_sheet_sections s))"

subsection \<open>Example mutators\<close>

text \<open>
  On the example store: \<open>ex_fill team cs\<close> fills in a sheet of round 2 for the
  team, with one section per template section identifier in \<open>cs\<close>. With the team
  \<^verbatim>\<open>a\<close> and the template section \<^verbatim>\<open>c\<close> the sheet is valid; an identifier that
  names no template section makes the section insert fail after the header insert
  has succeeded; a team that does not exist makes the header insert fail.
  \<open>ex_reject\<close> rejects. For updates, \<open>ex_edit\<close> changes the comments and sets
  the value of every section of the sheet to 7.
\<close>

definition ex_section :: "uuid \<Rightarrow> pbScoreSheetSection" where
  "ex_section c =
     \<lparr>sn_Id = [], sn_Title = [], sn_Description = [], sn_MaxValue = 0, sn_Multiplier = 0,
      sn_SectionId = c, sn_Value = 5\<rparr>"

definition ex_fill :: "uuid \<Rightarrow> uuid list \<Rightarrow> mutator" where
  "ex_fill team cs scoreSheet =
     Inr (scoreSheet\<lparr>sh_DivisionId := ''d'',
                      sh_Team := (sh_Team scoreSheet)\<lparr>tm_Id := team\<rparr>,
                      sh_ScoreSheetTemplateId := ''tp'',
                      sh_Author := (sh_Author scoreSheet)\<lparr>ur_Id := ''u''\<rparr>,
                      sh_Round := 2,
                      sh_Sections := map ex_section cs\<rparr>)"

definition ex_reject :: mutator where
  "ex_reject scoreSheet = Inl (ErrorString ''rejected'')"

definition ex_edit :: mutator where
  "ex_edit scoreSheet =
     Inr (scoreSheet\<lparr>sh_Comments := ''new'',
                      sh_Sections := map (\<lambda>section. section\<lparr>sn_Value := 7\<rparr>) (sh_Sections scoreSheet)\<rparr>)"

section \<open>Properties of the ladder\<close>

subsection \<open>The sort is the stable sort by the three keys\<close>

lemma ladder_less_key: "ladder_less a b \<longleftrightarrow> ladder_key a < ladder_key b"
  by (auto simp: ladder_less_def ladder_key_def less_prod_def)

lemma ladder_before_key: "ladder_before a b \<longleftrightarrow> ladder_key a \<le> ladder_key b"
  by (auto simp: ladder_before_def ladder_key_def less_eq_prod_def)

lemma insert_stable_insort:
  "insert_stable ladder_less x ys = insort_key ladder_key x ys"
  by (induction ys) (auto simp: ladder_less_key not_less)

lemma SliceStable_sort_key: "SliceStable ladder_less xs = sort_key ladder_key xs"
  by (induction xs) (simp_all add: SliceStable_def sort_key_def insert_stable_insort)

lemma set_SliceStable_ladder: "set (SliceStable ladder_less xs) = set xs"
  by (simp add: SliceStable_sort_key)

lemma map_insort_key: "map f (insort_key f x xs) = insort (f x) (map f xs)"
  by (induction xs) simp_all

lemma map_sort_key: "map f (sort_key f xs) = sort (map f xs)"
  by (induction xs) (simp_all add: map_insort_key)

lemma sort_mset_cong: "mset xs = mset ys \<Longrightarrow> sort xs = sort ys"
  by (metis sorted_list_of_multiset_mset)

lemma sort_key_keys_cong:
  assumes "mset (map f xs) = mset (map f ys)"
  shows "map f (sort_key f xs) = map f (sort_key f ys)"
  using assms by (simp add: map_sort_key sort_mset_cong)


subsection \<open>The first loop collects each team's rounds in order\<close>

lemma scoreMap_fold:
  "fold (scoreMap_step F) scores m t =
     (if t \<in> sc_Team ` set scores
      then Some ((case m t of None \<Rightarrow> [] | Some l \<Rightarrow> l) @ map (roundAverage F) (filter (\<lambda>s. sc_Team s = t) scores))
      else m t)"
  by (induction scores arbitrary: m)
     (auto simp: scoreMap_step_def Let_def filter_empty_conv image_iff split: option.splits)

lemma scoreMap_of_eq:
  "scoreMap_of F scores t =
     (if t \<in> sc_Team ` set scores then Some (team_rounds F scores t) else None)"
  by (simp add: scoreMap_of_def scoreMap_fold team_rounds_def)

lemma scoreMap_rounds:
  "(case scoreMap_of F scores t of None \<Rightarrow> [] | Some scoreList \<Rightarrow> scoreList) = team_rounds F scores t"
  by (auto simp: scoreMap_of_eq team_rounds_def filter_empty_conv)


subsection \<open>The inner loop in closed form\<close>

lemma score_loop_eq:
  "score_loop D cr rs (i, b, f) =
     (i + sum_list (map (\<lambda>r. D (ra_Average r)) (filter (\<lambda>r. ra_Round r = 0) rs)),
      fold max (map (\<lambda>r. D (ra_Average r)) (filter (\<lambda>r. ra_Round r \<noteq> 0 \<and> ra_Round r \<le> cr) rs)) b,
      fold max (map (\<lambda>r. D (ra_Average r)) (filter (\<lambda>r. ra_Round r \<noteq> 0 \<and> ra_Round r > cr) rs)) f)"
  by (induction rs arbitrary: i b f) (auto simp: Let_def max_def)

lemma fold_max_Max: "fold max xs (b::'a::linorder) = Max (insert b (set xs))"
  by (metis Max.set_eq_fold list.simps(15))

lemma Max_insert_zero:
  assumes "\<forall>x \<in> set xs. (0::decimal) \<le> x"
  shows "Max (insert 0 (set xs)) = max_or_zero xs"
proof (cases "xs = []")
  case True
  then show ?thesis by (simp add: max_or_zero_def)
next
  case False
  then have "0 \<le> Max (set xs)"
    using assms by (simp add: Max_ge_iff) (meson last_in_set)
  then show ?thesis
    using False by (simp add: max_or_zero_def max_def)
qed

lemma sum_list_mset_cong:
  "mset xs = mset ys \<Longrightarrow> sum_list (map g (filter P xs)) = sum_list (map g (filter P ys))"
  for g :: "'a \<Rightarrow> decimal"
  by (metis mset_filter mset_map sum_mset_sum_list)

lemma score_loop_mset_cong:
  assumes "mset xs = mset ys"
  shows "score_loop D cr xs (0, 0, 0) = score_loop D cr ys (0, 0, 0)"
proof -
  have "set xs = set ys" using assms by (rule mset_eq_setD)
  then show ?thesis
    using sum_list_mset_cong [OF assms, of "\<lambda>r. D (ra_Average r)" "\<lambda>r. ra_Round r = 0"]
    by (simp add: score_loop_eq fold_max_Max)
qed

lemma ladderEntry_of_rounds:
  "ladderEntry_of F D (scoreMap_of F scores) team =
     (let (interviewScore, bestRound, bestFinal) =
            score_loop D (int32 (lt_CompetitionRounds team)) (team_rounds F scores (lt_ID team)) (0, 0, 0)
      in \<lparr>le_Team = \<lparr>tm_Id = lt_ID team, tm_Name = lt_Name team,
                   tm_Institution = \<lparr>in_Id = lt_InstitutionID team, in_Name = lt_Institution team\<rparr>,
                   tm_Division = lt_DivisionID team\<rparr>,
          le_Rounds = team_rounds F scores (lt_ID team),
          le_InterviewScore = F interviewScore,
          le_BestRound = F bestRound,
          le_BestFinal = F bestFinal,
          le_RoundTotal = F (interviewScore + bestRound),
          le_FinalTotal = (if F bestFinal > 0 then F (interviewScore + bestFinal) else 0)\<rparr>)"
  by (simp add: ladderEntry_of_def scoreMap_rounds Let_def)

lemma ladderEntry_of_closed:
  fixes F :: "decimal \<Rightarrow> 'f::{linorder,zero}"
  shows "ladderEntry_of F D (scoreMap_of F scores) team =
     (let cr = int32 (lt_CompetitionRounds team);
          rounds = team_rounds F scores (lt_ID team);
          I = sum_list (map (\<lambda>r. D (ra_Average r)) (filter (\<lambda>r. ra_Round r = 0) rounds));
          B = Max (insert 0 (set (map (\<lambda>r. D (ra_Average r)) (filter (\<lambda>r. ra_Round r \<noteq> 0 \<and> ra_Round r \<le> cr) rounds))));
          Bf = Max (insert 0 (set (map (\<lambda>r. D (ra_Average r)) (filter (\<lambda>r. ra_Round r \<noteq> 0 \<and> ra_Round r > cr) rounds))))
      in \<lparr>le_Team = \<lparr>tm_Id = lt_ID team, tm_Name = lt_Name team,
                   tm_Institution = \<lparr>in_Id = lt_InstitutionID team, in_Name = lt_Institution team\<rparr>,
                   tm_Division = lt_DivisionID team\<rparr>,
          le_Rounds = rounds,
          le_InterviewScore = F I,
          le_BestRound = F B,
          le_BestFinal = F Bf,
          le_RoundTotal = F (I + B),
          le_FinalTotal = (if F Bf > 0 then F (I + Bf) else 0)\<rparr>)"
  unfolding ladderEntry_of_rounds score_loop_eq fold_max_Max Let_def prod.case
  by simp

lemma ladder_key_scores_cong:
  assumes "mset scores' = mset scores"
  shows "ladder_key (ladderEntry_of F D (scoreMap_of F scores') team) =
         ladder_key (ladderEntry_of F D (scoreMap_of F scores) team)"
proof -
  have "mset (team_rounds F scores' (lt_ID team)) = mset (team_rounds F scores (lt_ID team))"
    using assms by (simp add: team_rounds_def)
  then have "score_loop D (int32 (lt_CompetitionRounds team)) (team_rounds F scores' (lt_ID team)) (0, 0, 0)
           = score_loop D (int32 (lt_CompetitionRounds team)) (team_rounds F scores (lt_ID team)) (0, 0, 0)"
    by (rule score_loop_mset_cong)
  then show ?thesis
    by (simp add: ladderEntry_of_rounds ladder_key_def Let_def split: prod.splits)
qed


subsection \<open>The second loop builds one ladder per division\<close>

lemma ladderMap_of_snoc:
  "ladderMap_of F D sm (list @ [team]) = ladderMap_step F D sm team (ladderMap_of F D sm list)"
  by (simp add: ladderMap_of_def)

lemma map_fst_update:
  "map fst (map (\<lambda>(k, ladder). if k = d then (k, g ladder) else (k, ladder)) xs) = map fst xs"
  by (induction xs) auto

lemma map_of_update:
  "map_of (map (\<lambda>(k, ladder). if k = d then (k, g ladder) else (k, ladder)) xs) k =
     (if k = d then map_option g (map_of xs k) else map_of xs k)"
  by (induction xs) auto

lemma ladderMap_step_keys:
  "map fst (ladderMap_step F D sm team lm) =
     (if lt_DivisionID team \<in> fst ` set lm then map fst lm else map fst lm @ [lt_DivisionID team])"
  unfolding ladderMap_step_def Let_def map_fst_update
  by (auto split: option.splits simp: map_of_eq_None_iff[symmetric] simp del: map_of_eq_None_iff)

lemma ladderMap_keys:
  "distinct (map fst (ladderMap_of F D sm list)) \<and>
   set (map fst (ladderMap_of F D sm list)) = lt_DivisionID ` set list"
proof (induction list rule: rev_induct)
  case Nil
  then show ?case by (simp add: ladderMap_of_def)
next
  case (snoc team list)
  then show ?case
    by (auto simp: ladderMap_of_snoc ladderMap_step_keys)
qed

lemma ladderMap_step_lookup:
  "map_of (ladderMap_step F D sm team lm) k =
     (if k = lt_DivisionID team
      then Some (case map_of lm k of
              None \<Rightarrow> (new_DivisionLadder team)\<lparr>dl_Ladder := [ladderEntry_of F D sm team]\<rparr>
            | Some w \<Rightarrow> w\<lparr>dl_Ladder := dl_Ladder w @ [ladderEntry_of F D sm team]\<rparr>)
      else map_of lm k)"
  unfolding ladderMap_step_def Let_def map_of_update
  by (auto split: option.splits simp: new_DivisionLadder_def map_add_def)

lemma ladderMap_lookup:
  "map_of (ladderMap_of F D sm list) k =
     (if k \<in> lt_DivisionID ` set list
      then Some \<lparr>dl_Division = dl_Division (new_DivisionLadder (hd (filter (\<lambda>t. lt_DivisionID t = k) list)) :: 'a DivisionLadder),
                 dl_Ladder = map (ladderEntry_of F D sm) (filter (\<lambda>t. lt_DivisionID t = k) list)\<rparr>
      else None)" for F :: "decimal \<Rightarrow> 'a::{linorder,zero}"
proof (induction list rule: rev_induct)
  case Nil
  then show ?case by (simp add: ladderMap_of_def)
next
  case (snoc team list)
  show ?case
  proof (cases "k = lt_DivisionID team")
    case False
    then show ?thesis
      using snoc by (auto simp: ladderMap_of_snoc ladderMap_step_lookup)
  next
    case True
    show ?thesis
    proof (cases "k \<in> lt_DivisionID ` set list")
      case False
      then have "filter (\<lambda>t. lt_DivisionID t = k) list = []"
        by (auto simp: filter_empty_conv)
      with True False snoc show ?thesis
        by (simp add: ladderMap_of_snoc ladderMap_step_lookup new_DivisionLadder_def)
    next
      case k: True
      then have "filter (\<lambda>t. lt_DivisionID t = k) list \<noteq> []"
        by (auto simp: filter_empty_conv)
      with True k snoc show ?thesis
        by (simp add: ladderMap_of_snoc ladderMap_step_lookup)
    qed
  qed
qed

lemma ladders_of_rows_set:
  "set (ladders_of_rows F D list scores) = the_ladder F D list scores ` lt_DivisionID ` set list"
proof -
  let ?lm = "ladderMap_of F D (scoreMap_of F scores) list"
  have d: "distinct (map fst ?lm)" and keys: "fst ` set ?lm = lt_DivisionID ` set list"
    using ladderMap_keys [of F D "scoreMap_of F scores" list] by auto
  have *: "(k, v) \<in> set ?lm \<longleftrightarrow> k \<in> lt_DivisionID ` set list \<and>
        v = \<lparr>dl_Division = dl_Division (new_DivisionLadder (hd (filter (\<lambda>t. lt_DivisionID t = k) list)) :: 'a DivisionLadder),
             dl_Ladder = division_entries F D list scores k\<rparr>" for k v
    using map_of_eq_Some_iff [OF d, of k v]
    by (auto simp: ladderMap_lookup division_entries_def split: if_splits)
  show ?thesis
  proof (intro set_eqI iffI)
    fix dl assume "dl \<in> set (ladders_of_rows F D list scores)"
    then obtain k v where kv: "(k, v) \<in> set ?lm"
      and dl: "dl = v\<lparr>dl_Ladder := SliceStable ladder_less (dl_Ladder v)\<rparr>"
      by (auto simp: ladders_of_rows_def)
    from kv have "k \<in> lt_DivisionID ` set list" and "dl = the_ladder F D list scores k"
      using dl by (simp_all add: * the_ladder_def)
    then show "dl \<in> the_ladder F D list scores ` lt_DivisionID ` set list" by blast
  next
    fix dl assume "dl \<in> the_ladder F D list scores ` lt_DivisionID ` set list"
    then obtain k where k: "k \<in> lt_DivisionID ` set list" and dl: "dl = the_ladder F D list scores k"
      by blast
    define v :: "'a DivisionLadder" where "v = \<lparr>dl_Division = dl_Division (new_DivisionLadder (hd (filter (\<lambda>t. lt_DivisionID t = k) list)) :: 'a DivisionLadder),
             dl_Ladder = division_entries F D list scores k\<rparr>"
    have "(k, v) \<in> set ?lm" using k by (simp add: * v_def)
    moreover have "dl = (case (k, v) of (k, v) \<Rightarrow> v\<lparr>dl_Ladder := SliceStable ladder_less (dl_Ladder v)\<rparr>)"
      by (simp add: dl the_ladder_def v_def)
    ultimately show "dl \<in> set (ladders_of_rows F D list scores)"
      unfolding ladders_of_rows_def set_map by (rule image_eqI [rotated])
  qed
qed

lemma the_ladder_id:
  assumes "k \<in> lt_DivisionID ` set list"
  shows "dv_Id (dl_Division (the_ladder F D list scores k)) = k"
proof -
  from assms have "filter (\<lambda>t. lt_DivisionID t = k) list \<noteq> []"
    by (auto simp: filter_empty_conv)
  then have "hd (filter (\<lambda>t. lt_DivisionID t = k) list) \<in> set (filter (\<lambda>t. lt_DivisionID t = k) list)"
    by (rule hd_in_set)
  then show ?thesis
    by (simp add: the_ladder_def new_DivisionLadder_def)
qed

lemma team_entry_in_ladder:
  assumes "team \<in> set list"
  shows "\<exists>dl \<in> set (ladders_of_rows F D list scores).
           dv_Id (dl_Division dl) = lt_DivisionID team \<and>
           ladderEntry_of F D (scoreMap_of F scores) team \<in> set (dl_Ladder dl)"
proof -
  let ?k = "lt_DivisionID team"
  have k: "?k \<in> lt_DivisionID ` set list" using assms by simp
  have "the_ladder F D list scores ?k \<in> set (ladders_of_rows F D list scores)"
    using k by (simp add: ladders_of_rows_set)
  moreover have "dv_Id (dl_Division (the_ladder F D list scores ?k)) = ?k"
    using k by (rule the_ladder_id)
  moreover have "ladderEntry_of F D (scoreMap_of F scores) team \<in> set (dl_Ladder (the_ladder F D list scores ?k))"
    using assms by (simp add: the_ladder_def set_SliceStable_ladder division_entries_def)
  ultimately show ?thesis by blast
qed

lemma division_entries_keys_cong:
  assumes "mset list' = mset list" and "mset scores' = mset scores"
  shows "mset (map ladder_key (division_entries F D list' scores' k)) =
         mset (map ladder_key (division_entries F D list scores k))"
proof -
  have "map ladder_key (division_entries F D list' scores' k) =
        map (\<lambda>t. ladder_key (ladderEntry_of F D (scoreMap_of F scores) t)) (filter (\<lambda>t. lt_DivisionID t = k) list')"
    by (simp add: division_entries_def ladder_key_scores_cong [OF assms(2)] comp_def)
  moreover have "map ladder_key (division_entries F D list scores k) =
        map (\<lambda>t. ladder_key (ladderEntry_of F D (scoreMap_of F scores) t)) (filter (\<lambda>t. lt_DivisionID t = k) list)"
    by (simp add: division_entries_def comp_def)
  ultimately show ?thesis
    using assms(1) by (simp add: mset_filter [symmetric] del: mset_filter) (metis mset_filter mset_map)
qed

lemma FetchDanceLadders_Inr:
  "FetchDanceLadders F D showAll (Inr list) (Inr scores) = Inr (ladders_of_rows F D list scores)"
  by (simp add: FetchDanceLadders_def)

lemma select_ladderTeams_set:
  "r \<in> set (select_ladderTeams s) \<longleftrightarrow>
     (\<exists>t \<in> set (teams s). \<exists>i \<in> set (institutions s). \<exists>d \<in> set (divisions s).
        te_institution t = is_id i \<and> te_division t = di_id d \<and> di_league d = ''On Stage'' \<and>
        r = \<lparr>lt_ID = te_id t, lt_Name = te_name t,
             lt_Institution = is_name i, lt_InstitutionID = is_id i,
             lt_DivisionID = di_id d, lt_Division = di_name d,
             lt_CompetitionRounds = di_competition_rounds d,
             lt_FinalRounds = di_final_rounds d\<rparr>)"
  by (auto simp: select_ladderTeams_def)


subsection \<open>The claims about the ladder\<close>

text \<open>
  Claim C1. Every ladder that \<^verbatim>\<open>FetchDanceLadders\<close> returns is sorted ascending by
  final total, ties broken by ascending round total, remaining ties by the team name
  in lexicographic order. The sort is stable: the entries that agree on all three keys
  stand in the order in which the team rows produced them, and the ladder is a
  rearrangement of exactly those entries. The order by the keys does not depend on the
  order of the rows: for any rearrangement of the team rows and of the score rows the
  ladder of the same division shows the same sequence of keys.
\<close>

theorem ladder_sorted_stable:
  fixes F :: "decimal \<Rightarrow> 'f::{linorder,zero}"
  assumes "FetchDanceLadders F D showAll (Inr list) (Inr scores) = Inr ladders"
    and "dl \<in> set ladders"
  shows "sorted_wrt ladder_before (dl_Ladder dl) \<and>
         mset (dl_Ladder dl) = mset (division_entries F D list scores (dv_Id (dl_Division dl))) \<and>
         (\<forall>key. filter (\<lambda>e. ladder_key e = key) (dl_Ladder dl) =
                filter (\<lambda>e. ladder_key e = key) (division_entries F D list scores (dv_Id (dl_Division dl)))) \<and>
         (\<forall>list' scores' showAll'. mset list' = mset list \<and> mset scores' = mset scores \<longrightarrow>
            (\<exists>ladders'. FetchDanceLadders F D showAll' (Inr list') (Inr scores') = Inr ladders' \<and>
               (\<exists>dl' \<in> set ladders'.
                  dv_Id (dl_Division dl') = dv_Id (dl_Division dl) \<and>
                  map ladder_key (dl_Ladder dl') = map ladder_key (dl_Ladder dl))))"
proof -
  from assms have "dl \<in> set (ladders_of_rows F D list scores)"
    by (simp add: FetchDanceLadders_Inr)
  then obtain k where k: "k \<in> lt_DivisionID ` set list"
    and dl: "dl = the_ladder F D list scores k"
    by (auto simp: ladders_of_rows_set)
  have id: "dv_Id (dl_Division dl) = k"
    using k dl by (simp add: the_ladder_id)
  let ?in = "division_entries F D list scores k"
  have out: "dl_Ladder dl = sort_key ladder_key ?in"
    by (simp add: dl the_ladder_def SliceStable_sort_key)
  have "sorted (map ladder_key (dl_Ladder dl))"
    unfolding out by (rule sorted_sort_key)
  then have 1: "sorted_wrt ladder_before (dl_Ladder dl)"
    by (simp add: sorted_map ladder_before_key [abs_def])
  have 2: "mset (dl_Ladder dl) = mset ?in"
    unfolding out by simp
  have 3: "filter (\<lambda>e. ladder_key e = key) (dl_Ladder dl) = filter (\<lambda>e. ladder_key e = key) ?in" for key
    unfolding out by (rule sort_key_stable)
  have 4: "\<exists>dl' \<in> set (ladders_of_rows F D list' scores').
               dv_Id (dl_Division dl') = k \<and>
               map ladder_key (dl_Ladder dl') = map ladder_key (dl_Ladder dl)"
    if perm: "mset list' = mset list" "mset scores' = mset scores" for list' scores'
  proof -
    have "set list' = set list" using perm(1) by (rule mset_eq_setD)
    with k have k': "k \<in> lt_DivisionID ` set list'" by simp
    let ?dl' = "the_ladder F D list' scores' k"
    have "?dl' \<in> set (ladders_of_rows F D list' scores')"
      using k' by (simp add: ladders_of_rows_set)
    moreover have "dv_Id (dl_Division ?dl') = k"
      using k' by (rule the_ladder_id)
    moreover have "map ladder_key (dl_Ladder ?dl') = map ladder_key (dl_Ladder dl)"
      unfolding out
      by (simp add: the_ladder_def SliceStable_sort_key
            sort_key_keys_cong [OF division_entries_keys_cong [OF perm]])
    ultimately show ?thesis by blast
  qed
  have 5: "\<exists>ladders'. FetchDanceLadders F D showAll' (Inr list') (Inr scores') = Inr ladders' \<and>
               (\<exists>dl' \<in> set ladders'.
                  dv_Id (dl_Division dl') = k \<and>
                  map ladder_key (dl_Ladder dl') = map ladder_key (dl_Ladder dl))"
    if "mset list' = mset list \<and> mset scores' = mset scores" for list' scores' showAll'
    using 4 [of list' scores'] that unfolding FetchDanceLadders_Inr by blast
  show ?thesis
    unfolding id by (intro conjI allI impI) (rule 1, rule 2, rule 3, rule 5)
qed

theorem ladder_sorted_stable_witness:
  "FetchDanceLadders id id True (Inr ex_teams) (Inr ex_scores) = Inr (ladders_of_rows id id ex_teams ex_scores) \<and>
   hd (ladders_of_rows id id ex_teams ex_scores) \<in> set (ladders_of_rows id id ex_teams ex_scores) \<and>
   map (\<lambda>e. tm_Name (le_Team e)) (dl_Ladder (hd (ladders_of_rows id id ex_teams ex_scores))) = [''Team B'', ''Team A''] \<and>
   map ladder_key (dl_Ladder (hd (ladders_of_rows id id ex_teams ex_scores))) = [(0, 75, ''Team B''), (165, 170, ''Team A'')] \<and>
   sorted_wrt ladder_before (dl_Ladder (hd (ladders_of_rows id id ex_teams ex_scores))) \<and>
   (\<exists>dl' \<in> set (ladders_of_rows id id (rev ex_teams) (rev ex_scores)).
      map ladder_key (dl_Ladder dl') = [(0, 75, ''Team B''), (165 :: rat, 170, ''Team A'')])"
proof -
  let ?dl = "hd (ladders_of_rows id id ex_teams ex_scores) :: rat DivisionLadder"
  have f: "FetchDanceLadders id id True (Inr ex_teams) (Inr ex_scores) = Inr (ladders_of_rows id id ex_teams ex_scores)"
    by (rule FetchDanceLadders_Inr)
  have h: "?dl \<in> set (ladders_of_rows id id ex_teams ex_scores)"
    by code_simp
  have names: "map (\<lambda>e. tm_Name (le_Team e)) (dl_Ladder ?dl) = [''Team B'', ''Team A'']"
    by code_simp
  have keys: "map ladder_key (dl_Ladder ?dl) = [(0, 75, ''Team B''), (165, 170, ''Team A'')]"
    by code_simp
  note main = ladder_sorted_stable [OF f h]
  from main have s: "sorted_wrt ladder_before (dl_Ladder ?dl)" by (rule conjunct1)
  from main have "\<forall>list' scores' showAll'. mset list' = mset ex_teams \<and> mset scores' = mset ex_scores \<longrightarrow>
            (\<exists>ladders'. FetchDanceLadders id id showAll' (Inr list') (Inr scores') = Inr ladders' \<and>
               (\<exists>dl' \<in> set ladders'.
                  dv_Id (dl_Division dl') = dv_Id (dl_Division ?dl) \<and>
                  map ladder_key (dl_Ladder dl') = map ladder_key (dl_Ladder ?dl)))"
    by (rule conjunct2 [OF conjunct2 [OF conjunct2]])
  then have "mset (rev ex_teams) = mset ex_teams \<and> mset (rev ex_scores) = mset ex_scores \<longrightarrow>
            (\<exists>ladders'. FetchDanceLadders id id False (Inr (rev ex_teams)) (Inr (rev ex_scores)) = Inr ladders' \<and>
               (\<exists>dl' \<in> set ladders'.
                  dv_Id (dl_Division dl') = dv_Id (dl_Division ?dl) \<and>
                  map ladder_key (dl_Ladder dl') = map ladder_key (dl_Ladder ?dl)))"
    by blast
  then obtain dl' :: "rat DivisionLadder"
    where a: "dl' \<in> set (ladders_of_rows id id (rev ex_teams) (rev ex_scores))"
      and b: "map ladder_key (dl_Ladder dl') = map ladder_key (dl_Ladder ?dl)"
    unfolding FetchDanceLadders_Inr mset_rev by blast
  from b keys have "map ladder_key (dl_Ladder dl') = [(0, 75, ''Team B''), (165, 170, ''Team A'')]"
    by (rule trans)
  then have p: "\<exists>dl' \<in> set (ladders_of_rows id id (rev ex_teams) (rev ex_scores)).
      map ladder_key (dl_Ladder dl') = [(0, 75, ''Team B''), (165 :: rat, 170, ''Team A'')]"
    using a by (rule bexI)
  show ?thesis
    by (intro conjI) (rule f, rule h, rule names, rule keys, rule s, rule p)
qed

text \<open>
  Claim C2. For a team row whose division has \<open>N1\<close> competition rounds, with rounds
  that are not negative and averages that are not negative (the data model of the
  specification), the entry built for the team stands in the ladder of its division
  and its fields are the float images of: the sum of the averages of round 0
  (interview), the greatest average of the rounds 1 to \<open>N1\<close> or 0 if there is none
  (best round), the greatest average of the rounds above \<open>N1\<close> or 0 if there is none
  (best final), interview plus best round (round total), and interview plus best
  final when the best final is positive, else 0 (final total). A team with no round
  average has all five fields equal to 0 and still has its entry.
\<close>

theorem ladder_entry_fields:
  fixes F :: "decimal \<Rightarrow> 'f::{linorder,zero}"
  assumes team: "team \<in> set list"
    and zero: "F 0 = 0"
    and N1: "0 \<le> int32 (lt_CompetitionRounds team)"
    and wf: "\<forall>r \<in> set (team_rounds F scores (lt_ID team)). 0 \<le> ra_Round r \<and> 0 \<le> D (ra_Average r)"
  shows
    "(\<exists>ladders. FetchDanceLadders F D showAll (Inr list) (Inr scores) = Inr ladders \<and>
        (\<exists>dl \<in> set ladders.
           dv_Id (dl_Division dl) = lt_DivisionID team \<and>
           ladderEntry_of F D (scoreMap_of F scores) team \<in> set (dl_Ladder dl))) \<and>
     (let e = ladderEntry_of F D (scoreMap_of F scores) team;
          rounds = team_rounds F scores (lt_ID team);
          N1 = int32 (lt_CompetitionRounds team);
          interview = spec_interview D rounds;
          best_round = spec_best_round D N1 rounds;
          best_final = spec_best_final D N1 rounds
      in le_Rounds e = rounds \<and>
         le_InterviewScore e = F interview \<and>
         le_BestRound e = F best_round \<and>
         le_BestFinal e = F best_final \<and>
         le_RoundTotal e = F (interview + best_round) \<and>
         le_FinalTotal e = (if 0 < le_BestFinal e then F (interview + best_final) else 0) \<and>
         (rounds = [] \<longrightarrow>
            le_InterviewScore e = 0 \<and> le_BestRound e = 0 \<and> le_BestFinal e = 0 \<and>
            le_RoundTotal e = 0 \<and> le_FinalTotal e = 0))"
proof -
  let ?rounds = "team_rounds F scores (lt_ID team)"
  let ?cr = "int32 (lt_CompetitionRounds team)"
  have r1: "filter (\<lambda>r. ra_Round r \<noteq> 0 \<and> ra_Round r \<le> ?cr) ?rounds =
            filter (\<lambda>r. 1 \<le> ra_Round r \<and> ra_Round r \<le> ?cr) ?rounds"
    using wf by (intro filter_cong refl) force
  have r2: "filter (\<lambda>r. ra_Round r \<noteq> 0 \<and> ?cr < ra_Round r) ?rounds =
            filter (\<lambda>r. ?cr < ra_Round r) ?rounds"
    using N1 by (intro filter_cong refl) auto
  have B: "Max (insert 0 (set (map (\<lambda>r. D (ra_Average r)) (filter (\<lambda>r. ra_Round r \<noteq> 0 \<and> ra_Round r \<le> ?cr) ?rounds))))
         = spec_best_round D ?cr ?rounds"
    unfolding r1 spec_best_round_def using wf by (intro Max_insert_zero) auto
  have Bf: "Max (insert 0 (set (map (\<lambda>r. D (ra_Average r)) (filter (\<lambda>r. ra_Round r \<noteq> 0 \<and> ?cr < ra_Round r) ?rounds))))
         = spec_best_final D ?cr ?rounds"
    unfolding r2 spec_best_final_def using wf by (intro Max_insert_zero) auto
  have empty: "spec_interview D [] = 0" "spec_best_round D ?cr [] = 0" "spec_best_final D ?cr [] = 0"
    by (simp_all add: spec_interview_def spec_best_round_def spec_best_final_def max_or_zero_def)
  have fields: "ladderEntry_of F D (scoreMap_of F scores) team =
      \<lparr>le_Team = \<lparr>tm_Id = lt_ID team, tm_Name = lt_Name team,
                   tm_Institution = \<lparr>in_Id = lt_InstitutionID team, in_Name = lt_Institution team\<rparr>,
                   tm_Division = lt_DivisionID team\<rparr>,
          le_Rounds = ?rounds,
          le_InterviewScore = F (spec_interview D ?rounds),
          le_BestRound = F (spec_best_round D ?cr ?rounds),
          le_BestFinal = F (spec_best_final D ?cr ?rounds),
          le_RoundTotal = F (spec_interview D ?rounds + spec_best_round D ?cr ?rounds),
          le_FinalTotal = (if F (spec_best_final D ?cr ?rounds) > 0
                           then F (spec_interview D ?rounds + spec_best_final D ?cr ?rounds) else 0)\<rparr>"
    unfolding ladderEntry_of_closed Let_def B Bf by (simp add: spec_interview_def)
  show ?thesis
    using team_entry_in_ladder [OF team, of F D scores]
    by (simp add: Let_def fields empty zero FetchDanceLadders_Inr)
qed

theorem ladder_entry_fields_witness:
  "hd ex_teams \<in> set ex_teams \<and>
   id (0::rat) = 0 \<and>
   0 \<le> int32 (lt_CompetitionRounds (hd ex_teams)) \<and>
   le_InterviewScore (ladderEntry_of id id (scoreMap_of id ex_scores) (hd ex_teams)) = (80::rat) \<and>
   le_BestRound (ladderEntry_of id id (scoreMap_of id ex_scores) (hd ex_teams)) = (90::rat) \<and>
   le_BestFinal (ladderEntry_of id id (scoreMap_of id ex_scores) (hd ex_teams)) = (85::rat) \<and>
   le_RoundTotal (ladderEntry_of id id (scoreMap_of id ex_scores) (hd ex_teams)) = (170::rat) \<and>
   le_FinalTotal (ladderEntry_of id id (scoreMap_of id ex_scores) (hd ex_teams)) = (165::rat)"
proof -
  let ?team = "hd ex_teams"
  let ?e = "ladderEntry_of id id (scoreMap_of id ex_scores) ?team :: rat LadderEntry"
  let ?rounds = "team_rounds id ex_scores (lt_ID ?team) :: rat RoundAverage list"
  have h1: "?team \<in> set ex_teams" by code_simp
  have h2: "id (0::rat) = 0" by simp
  have h3: "0 \<le> int32 (lt_CompetitionRounds ?team)" by code_simp
  have h4: "\<forall>r \<in> set ?rounds. 0 \<le> ra_Round r \<and> 0 \<le> id (ra_Average r)" by code_simp
  have i: "spec_interview id ?rounds = 80" by code_simp
  have b: "spec_best_round id (int32 (lt_CompetitionRounds ?team)) ?rounds = 90" by code_simp
  have f: "spec_best_final id (int32 (lt_CompetitionRounds ?team)) ?rounds = 85" by code_simp
  note main = ladder_entry_fields [OF h1 h2 h3 h4, unfolded Let_def i b f]
  from main have 1: "le_InterviewScore ?e = 80" by simp
  from main have 2: "le_BestRound ?e = 90" by simp
  from main have 3: "le_BestFinal ?e = 85" by simp
  from main have 4: "le_RoundTotal ?e = 170" by simp
  from main 3 have 5: "le_FinalTotal ?e = 165" by simp
  show ?thesis
    by (intro conjI) (rule h1, rule h2, rule h3, rule 1, rule 2, rule 3, rule 4, rule 5)
qed


text \<open>
  Claim C3, as amended. The total of a sheet is the exact sum of value times
  multiplier over its sections. Each average of a team and round is rounded to two
  decimal places and converted to a float when it is stored in the ladder entry; the
  aggregation then runs in exact decimal arithmetic over the decimals read back from
  those floats, and each reported aggregate is converted to a float once.
\<close>

theorem ladder_rounding:
  fixes F :: "decimal \<Rightarrow> 'f::{linorder,zero}"
  shows
    "(\<forall>(sid, tot) \<in> set (sheet_totals s).
        tot = (\<Sum>(sec, ts) \<leftarrow> sheet_sections s sid. se_value sec * of_int (ts_multiplier ts))) \<and>
     (let e = ladderEntry_of F D (scoreMap_of F scores) team;
          rows = filter (\<lambda>s. sc_Team s = lt_ID team) scores;
          cr = int32 (lt_CompetitionRounds team);
          interview = (\<Sum>s \<leftarrow> filter (\<lambda>s. int32 (sc_Round s) = 0) rows. stored_average F D s);
          best_round = Max (insert 0 (set (map (stored_average F D)
                         (filter (\<lambda>s. int32 (sc_Round s) \<noteq> 0 \<and> int32 (sc_Round s) \<le> cr) rows))));
          best_final = Max (insert 0 (set (map (stored_average F D)
                         (filter (\<lambda>s. int32 (sc_Round s) \<noteq> 0 \<and> cr < int32 (sc_Round s)) rows))))
      in map ra_Average (le_Rounds e) = map (\<lambda>s. F (Round2 (sc_Average s))) rows \<and>
         le_InterviewScore e = F interview \<and>
         le_BestRound e = F best_round \<and>
         le_BestFinal e = F best_final \<and>
         le_RoundTotal e = F (interview + best_round) \<and>
         le_FinalTotal e = (if 0 < F best_final then F (interview + best_final) else 0))"
proof -
  have totals: "\<forall>(sid, tot) \<in> set (sheet_totals s).
        tot = (\<Sum>(sec, ts) \<leftarrow> sheet_sections s sid. se_value sec * of_int (ts_multiplier ts))"
    by (auto simp: sheet_totals_def)
  have m: "map (\<lambda>r. D (ra_Average r)) (filter P (team_rounds F scores t)) =
           map (stored_average F D) (filter (\<lambda>s. P (roundAverage F s)) (filter (\<lambda>s. sc_Team s = t) scores))" for P t
    by (simp add: team_rounds_def filter_map comp_def stored_average_def roundAverage_def)
  have r: "ra_Round (roundAverage F s) = int32 (sc_Round s)" for s
    by (simp add: roundAverage_def)
  have avg: "map ra_Average (team_rounds F scores t) = map (\<lambda>s. F (Round2 (sc_Average s))) (filter (\<lambda>s. sc_Team s = t) scores)" for t
    by (simp add: team_rounds_def roundAverage_def comp_def)
  show ?thesis
    using totals unfolding ladderEntry_of_closed Let_def m r
    by (simp add: avg)
qed

theorem ladder_rounding_witness:
  "sheet_totals ex_db = [(''s0'', 80004 / 1000), (''s1'', 90004 / 1000)] \<and>
   map sc_Average (select_scoreCalcs ex_db) = [80004 / 1000, 90004 / 1000] \<and>
   map ra_Average (le_Rounds (ladderEntry_of id id (scoreMap_of id (select_scoreCalcs ex_db)) (hd (select_ladderTeams ex_db))))
     = [80 :: rat, 90] \<and>
   le_RoundTotal (ladderEntry_of id id (scoreMap_of id (select_scoreCalcs ex_db)) (hd (select_ladderTeams ex_db)))
     = (170 :: rat)"
proof -
  let ?scores = "select_scoreCalcs ex_db"
  let ?team = "hd (select_ladderTeams ex_db)"
  let ?e = "ladderEntry_of id id (scoreMap_of id ?scores) ?team :: rat LadderEntry"
  note main = ladder_rounding [of ex_db id id ?scores ?team, unfolded Let_def]
  have t: "sheet_totals ex_db = [(''s0'', 80004 / 1000), (''s1'', 90004 / 1000)]" by code_simp
  have a: "map sc_Average ?scores = [80004 / 1000, 90004 / 1000]" by code_simp
  have rows: "map (\<lambda>s. id (Round2 (sc_Average s))) (filter (\<lambda>s. sc_Team s = lt_ID ?team) ?scores) = [80, 90]"
    by code_simp
  from main have "map ra_Average (le_Rounds ?e) = map (\<lambda>s. id (Round2 (sc_Average s))) (filter (\<lambda>s. sc_Team s = lt_ID ?team) ?scores)"
    by blast
  then have r: "map ra_Average (le_Rounds ?e) = [80, 90]" unfolding rows .
  have v: "(\<Sum>s \<leftarrow> filter (\<lambda>s. int32 (sc_Round s) = 0) (filter (\<lambda>s. sc_Team s = lt_ID ?team) ?scores). stored_average id id s) +
        Max (insert 0 (set (map (stored_average id id)
           (filter (\<lambda>s. int32 (sc_Round s) \<noteq> 0 \<and> int32 (sc_Round s) \<le> int32 (lt_CompetitionRounds ?team))
              (filter (\<lambda>s. sc_Team s = lt_ID ?team) ?scores))))) = 170"
    by code_simp
  from main have "le_RoundTotal ?e = id ((\<Sum>s \<leftarrow> filter (\<lambda>s. int32 (sc_Round s) = 0) (filter (\<lambda>s. sc_Team s = lt_ID ?team) ?scores). stored_average id id s) +
        Max (insert 0 (set (map (stored_average id id)
           (filter (\<lambda>s. int32 (sc_Round s) \<noteq> 0 \<and> int32 (sc_Round s) \<le> int32 (lt_CompetitionRounds ?team))
              (filter (\<lambda>s. sc_Team s = lt_ID ?team) ?scores))))))"
    by blast
  then have rt: "le_RoundTotal ?e = 170" unfolding v by simp
  show ?thesis
    by (intro conjI) (rule t, rule a, rule r, rule rt)
qed


text \<open>
  Claim C3 as it was stated, that no rounding precedes the aggregation, fails on the
  example store: the exact averages 80.004 and 90.004 add up to 170.008, and the
  function reports the round total 170.
\<close>

theorem ladder_rounding_counterexample:
  "le_RoundTotal (ladderEntry_of id id (scoreMap_of id (select_scoreCalcs ex_db)) (hd (select_ladderTeams ex_db)))
     = (170 :: rat) \<and>
   exact_round_total id (int32 (lt_CompetitionRounds (hd (select_ladderTeams ex_db))))
      (select_scoreCalcs ex_db) (lt_ID (hd (select_ladderTeams ex_db))) = (170008 / 1000 :: rat) \<and>
   le_RoundTotal (ladderEntry_of id id (scoreMap_of id (select_scoreCalcs ex_db)) (hd (select_ladderTeams ex_db)))
     \<noteq> (exact_round_total id (int32 (lt_CompetitionRounds (hd (select_ladderTeams ex_db))))
      (select_scoreCalcs ex_db) (lt_ID (hd (select_ladderTeams ex_db))) :: rat)"
proof -
  have 1: "le_RoundTotal (ladderEntry_of id id (scoreMap_of id (select_scoreCalcs ex_db)) (hd (select_ladderTeams ex_db)))
     = (170 :: rat)" by code_simp
  have 2: "exact_round_total id (int32 (lt_CompetitionRounds (hd (select_ladderTeams ex_db))))
      (select_scoreCalcs ex_db) (lt_ID (hd (select_ladderTeams ex_db))) = (170008 / 1000 :: rat)" by code_simp
  have 3: "(170 :: rat) \<noteq> 170008 / 1000" by simp
  show ?thesis unfolding 1 2 using 3 by simp
qed


text \<open>
  Claim C9. The result of \<^verbatim>\<open>FetchDanceLadders\<close> does not depend on \<^verbatim>\<open>showAll\<close>,
  whatever the outcomes of the two queries and whatever the store. On a store the
  result is a list of ladders in which every team of every division whose league is
  On Stage is ranked in the ladder of its division, and every ladder belongs to such
  a division: no division is filtered out.
\<close>

theorem FetchDanceLadders_showAll:
  fixes F :: "decimal \<Rightarrow> 'f::{linorder,zero}"
  shows
    "FetchDanceLadders F D a teamRows scoreRows = FetchDanceLadders F D b teamRows scoreRows \<and>
     FetchDanceLadders_db F D s a = FetchDanceLadders_db F D s b \<and>
     (\<exists>ladders. FetchDanceLadders_db F D s a = Inr ladders \<and>
        (\<forall>d \<in> set (divisions s). \<forall>t \<in> set (teams s). \<forall>i \<in> set (institutions s).
           di_league d = ''On Stage'' \<and> te_division t = di_id d \<and> te_institution t = is_id i \<longrightarrow>
           (\<exists>dl \<in> set ladders. dv_Id (dl_Division dl) = di_id d \<and>
              (\<exists>e \<in> set (dl_Ladder dl). tm_Id (le_Team e) = te_id t))) \<and>
        (\<forall>dl \<in> set ladders. \<exists>d \<in> set (divisions s).
           di_league d = ''On Stage'' \<and> di_id d = dv_Id (dl_Division dl)))"
proof -
  let ?list = "select_ladderTeams s" and ?scores = "select_scoreCalcs s"
  let ?ladders = "ladders_of_rows F D ?list ?scores"
  have 1: "FetchDanceLadders F D a teamRows scoreRows = FetchDanceLadders F D b teamRows scoreRows"
    by (simp add: FetchDanceLadders_def)
  have 2: "FetchDanceLadders_db F D s a = FetchDanceLadders_db F D s b"
    by (simp add: FetchDanceLadders_db_def FetchDanceLadders_def)
  have 3: "FetchDanceLadders_db F D s a = Inr ?ladders"
    by (simp add: FetchDanceLadders_db_def FetchDanceLadders_def)
  have 4: "\<exists>dl \<in> set ?ladders. dv_Id (dl_Division dl) = di_id d \<and>
              (\<exists>e \<in> set (dl_Ladder dl). tm_Id (le_Team e) = te_id t)"
    if "d \<in> set (divisions s)" "t \<in> set (teams s)" "i \<in> set (institutions s)"
       "di_league d = ''On Stage''" "te_division t = di_id d" "te_institution t = is_id i" for d t i
  proof -
    define r where "r = \<lparr>lt_ID = te_id t, lt_Name = te_name t,
             lt_Institution = is_name i, lt_InstitutionID = is_id i,
             lt_DivisionID = di_id d, lt_Division = di_name d,
             lt_CompetitionRounds = di_competition_rounds d,
             lt_FinalRounds = di_final_rounds d\<rparr>"
    have "r \<in> set ?list"
      unfolding select_ladderTeams_set r_def using that by blast
    from team_entry_in_ladder [OF this, of F D ?scores]
    obtain dl where dl: "dl \<in> set ?ladders" "dv_Id (dl_Division dl) = lt_DivisionID r"
      "ladderEntry_of F D (scoreMap_of F ?scores) r \<in> set (dl_Ladder dl)"
      by blast
    have "tm_Id (le_Team (ladderEntry_of F D (scoreMap_of F ?scores) r)) = te_id t"
      by (simp add: ladderEntry_of_closed Let_def r_def)
    with dl show ?thesis
      by (auto simp: r_def)
  qed
  have 5: "\<exists>d \<in> set (divisions s). di_league d = ''On Stage'' \<and> di_id d = dv_Id (dl_Division dl)"
    if "dl \<in> set ?ladders" for dl
  proof -
    from that obtain k where k: "k \<in> lt_DivisionID ` set ?list" and dl: "dl = the_ladder F D ?list ?scores k"
      by (auto simp: ladders_of_rows_set)
    from k obtain r where "r \<in> set ?list" "lt_DivisionID r = k" by auto
    then obtain d where "d \<in> set (divisions s)" "di_league d = ''On Stage''" "di_id d = k"
      unfolding select_ladderTeams_set by auto
    moreover have "dv_Id (dl_Division dl) = k"
      unfolding dl using k by (rule the_ladder_id)
    ultimately show ?thesis by auto
  qed
  show ?thesis
    using 1 2 3 4 5 by blast
qed

theorem FetchDanceLadders_showAll_witness:
  "FetchDanceLadders_db id id ex_db True = (FetchDanceLadders_db id id ex_db False :: error + rat DivisionLadder list) \<and>
   hd (divisions ex_db) \<in> set (divisions ex_db) \<and>
   di_league (hd (divisions ex_db)) = ''On Stage'' \<and>
   te_division (hd (teams ex_db)) = di_id (hd (divisions ex_db)) \<and>
   (\<exists>ladders :: rat DivisionLadder list. FetchDanceLadders_db id id ex_db True = Inr ladders \<and>
      (\<exists>dl \<in> set ladders. dv_Id (dl_Division dl) = ''d'' \<and>
         (\<exists>e \<in> set (dl_Ladder dl). tm_Id (le_Team e) = ''a'')))"
proof -
  let ?d = "hd (divisions ex_db)" and ?t = "hd (teams ex_db)" and ?i = "hd (institutions ex_db)"
  have d: "?d \<in> set (divisions ex_db)" by code_simp
  have t: "?t \<in> set (teams ex_db)" by code_simp
  have i: "?i \<in> set (institutions ex_db)" by code_simp
  have l: "di_league ?d = ''On Stage''" by code_simp
  have td: "te_division ?t = di_id ?d" by code_simp
  have ti: "te_institution ?t = is_id ?i" by code_simp
  have idd: "di_id ?d = ''d''" by code_simp
  have idt: "te_id ?t = ''a''" by code_simp
  note main = FetchDanceLadders_showAll [of id id True "Inr []" "Inr []" False ex_db]
  from main have 1: "FetchDanceLadders_db id id ex_db True = (FetchDanceLadders_db id id ex_db False :: error + rat DivisionLadder list)"
    by blast
  from main obtain ladders :: "rat DivisionLadder list" where
    a: "FetchDanceLadders_db id id ex_db True = Inr ladders" and
    b: "\<forall>d \<in> set (divisions ex_db). \<forall>t \<in> set (teams ex_db). \<forall>i \<in> set (institutions ex_db).
           di_league d = ''On Stage'' \<and> te_division t = di_id d \<and> te_institution t = is_id i \<longrightarrow>
           (\<exists>dl \<in> set ladders. dv_Id (dl_Division dl) = di_id d \<and>
              (\<exists>e \<in> set (dl_Ladder dl). tm_Id (le_Team e) = te_id t))"
    by blast
  from b d t i l td ti have "\<exists>dl \<in> set ladders. dv_Id (dl_Division dl) = di_id ?d \<and>
              (\<exists>e \<in> set (dl_Ladder dl). tm_Id (le_Team e) = te_id ?t)"
    by blast
  then have c: "\<exists>dl \<in> set ladders. dv_Id (dl_Division dl) = ''d'' \<and>
         (\<exists>e \<in> set (dl_Ladder dl). tm_Id (le_Team e) = ''a'')"
    unfolding idd idt .
  from a c have 2: "\<exists>ladders :: rat DivisionLadder list. FetchDanceLadders_db id id ex_db True = Inr ladders \<and>
      (\<exists>dl \<in> set ladders. dv_Id (dl_Division dl) = ''d'' \<and>
         (\<exists>e \<in> set (dl_Ladder dl). tm_Id (le_Team e) = ''a''))"
    by blast
  show ?thesis
    by (intro conjI) (rule 1, rule d, rule l, rule td, rule 2)
qed


section \<open>Properties of the score sheet repository\<close>

subsection \<open>Fetching\<close>

lemma FetchScoreSheet_not_nil: "FetchScoreSheet_join sched header sections \<noteq> Inr None"
  by (cases sched; cases header; cases sections)
     (simp_all add: FetchScoreSheet_join_def group_Wait_def)

lemma sheetQuery_absent:
  assumes "\<forall>sh \<in> set (score_sheets s). ss_id sh \<noteq> ident"
  shows "sheetQuery s ident = []"
  using assms unfolding sheetQuery_def by (induction "score_sheets s") (auto simp: concat_eq_Nil_conv)

lemma FetchScoreSheet_absent:
  assumes "\<forall>sh \<in> set (score_sheets s). ss_id sh \<noteq> ident"
  shows "FetchScoreSheet sched s ident = Inl (ErrorString ''Error fetching: sql: no rows in result set'')"
  by (cases sched)
     (simp_all add: FetchScoreSheet_def sheetQuery_absent [OF assms] Get_def
        FetchScoreSheet_join_def group_Wait_def)

lemma FetchScoreSheet_no_rows:
  assumes "\<forall>sh \<in> set (score_sheets s). ss_id sh \<noteq> ident"
  shows "FetchScoreSheet sched s ident = Inl no_rows_error"
  using FetchScoreSheet_absent [OF assms] by (simp add: no_rows_error_def)


subsection \<open>Fresh identifiers and the header insert\<close>

lemma gen_random_uuid_fresh: "gen_random_uuid used \<notin> set used"
proof
  assume "gen_random_uuid used \<in> set used"
  moreover have "u \<in> set used \<Longrightarrow> length u \<le> foldr (\<lambda>u n. max (length u) n) used 0" for u
    by (induction used) auto
  ultimately have "length (gen_random_uuid used) \<le> foldr (\<lambda>u n. max (length u) n) used 0"
    by blast
  then show False by (simp add: gen_random_uuid_def)
qed

lemma insert_header_ids:
  assumes "insert_header s scoreSheet = Inr (ssRows, s1)"
  shows "ssRows = [gen_random_uuid (map ss_id (score_sheets s))]"
  using assms by (auto simp: insert_header_def insert_score_sheet_def Let_def split: if_splits)

lemma insert_header_state:
  assumes "insert_header s scoreSheet = Inr (ssRows, s1)"
  shows "map ss_id (score_sheets s1) = map ss_id (score_sheets s) @ [gen_random_uuid (map ss_id (score_sheets s))]"
    and "score_sheet_sections s1 = score_sheet_sections s"
    and "empty_statement_error s1 = empty_statement_error s"
  using assms by (auto simp: insert_header_def insert_score_sheet_def Let_def split: if_splits)


subsection \<open>What the writing statements of an update leave alone\<close>

lemma filter_map_update:
  assumes "\<And>x. k (f x) = k x"
  shows "filter (\<lambda>x. k x \<noteq> i) (map (\<lambda>x. if k x = i then f x else x) xs) = filter (\<lambda>x. k x \<noteq> i) xs"
  by (induction xs) (simp_all add: assms)

lemma filter_map_update_set:
  assumes "\<And>x. k (f x) = k x"
  shows "filter (\<lambda>x. k x \<notin> A) (map (\<lambda>x. if k x = i then f x else x) xs) =
         (if i \<in> A then filter (\<lambda>x. k x \<notin> A) xs
          else map (\<lambda>x. if k x = i then f x else x) (filter (\<lambda>x. k x \<notin> A) xs))"
  by (induction xs) (auto simp: assms)

lemma update_score_sheet_frame:
  assumes "update_score_sheet tx ident team timings comments = Inr tx1"
  shows "map header_frame (score_sheets tx1) = map header_frame (score_sheets tx)"
    and "filter (\<lambda>sh. ss_id sh \<noteq> ident) (score_sheets tx1) = filter (\<lambda>sh. ss_id sh \<noteq> ident) (score_sheets tx)"
    and "score_sheet_sections tx1 = score_sheet_sections tx"
    and "other_tables tx1 = other_tables tx"
proof -
  from assms have tx1: "tx1 = tx\<lparr>score_sheets :=
                  map (\<lambda>sh. if ss_id sh = ident
                             then sh\<lparr>ss_team := team, ss_timings := timings, ss_comments := comments\<rparr>
                             else sh) (score_sheets tx)\<rparr>"
    by (auto simp: update_score_sheet_def split: if_splits)
  show "map header_frame (score_sheets tx1) = map header_frame (score_sheets tx)"
    unfolding tx1 by (simp add: header_frame_def comp_def)
  show "filter (\<lambda>sh. ss_id sh \<noteq> ident) (score_sheets tx1) = filter (\<lambda>sh. ss_id sh \<noteq> ident) (score_sheets tx)"
    unfolding tx1 by (simp add: filter_map_update)
  show "score_sheet_sections tx1 = score_sheet_sections tx"
    unfolding tx1 by simp
  show "other_tables tx1 = other_tables tx"
    unfolding tx1 by (simp add: other_tables_def)
qed

lemma update_score_sheet_section_frame:
  assumes "update_score_sheet_section tx ident v = Inr tx1"
  shows "score_sheets tx1 = score_sheets tx"
    and "map section_frame (score_sheet_sections tx1) = map section_frame (score_sheet_sections tx)"
    and "ident \<in> A \<Longrightarrow> filter (\<lambda>sec. se_id sec \<notin> A) (score_sheet_sections tx1) =
                         filter (\<lambda>sec. se_id sec \<notin> A) (score_sheet_sections tx)"
    and "other_tables tx1 = other_tables tx"
proof -
  from assms have tx1: "tx1 = tx\<lparr>score_sheet_sections :=
               map (\<lambda>sec. if se_id sec = ident then sec\<lparr>se_value := v\<rparr> else sec)
                 (score_sheet_sections tx)\<rparr>"
    by (simp add: update_score_sheet_section_def)
  show "score_sheets tx1 = score_sheets tx" unfolding tx1 by simp
  show "map section_frame (score_sheet_sections tx1) = map section_frame (score_sheet_sections tx)"
    unfolding tx1 by (simp add: section_frame_def comp_def)
  show "filter (\<lambda>sec. se_id sec \<notin> A) (score_sheet_sections tx1) =
        filter (\<lambda>sec. se_id sec \<notin> A) (score_sheet_sections tx)" if "ident \<in> A"
    unfolding tx1 using that by (simp add: filter_map_update_set)
  show "other_tables tx1 = other_tables tx"
    unfolding tx1 by (simp add: other_tables_def)
qed

lemma update_sections_frame:
  assumes "update_sections sections tx = (err, tx2)"
  shows "score_sheets tx2 = score_sheets tx \<and>
         map section_frame (score_sheet_sections tx2) = map section_frame (score_sheet_sections tx) \<and>
         (sn_Id ` set sections \<subseteq> A \<longrightarrow>
            filter (\<lambda>sec. se_id sec \<notin> A) (score_sheet_sections tx2) =
            filter (\<lambda>sec. se_id sec \<notin> A) (score_sheet_sections tx)) \<and>
         other_tables tx2 = other_tables tx"
  using assms
proof (induction sections arbitrary: tx)
  case Nil
  then show ?case by simp
next
  case (Cons sec0 rest)
  obtain tx1 where tx1: "update_score_sheet_section tx (sn_Id sec0) (sn_Value sec0) = Inr tx1"
    by (simp add: update_score_sheet_section_def)
  with Cons.prems have "update_sections rest tx1 = (err, tx2)" by simp
  from Cons.IH [OF this] update_score_sheet_section_frame(1,2,4) [OF tx1]
       update_score_sheet_section_frame(3) [OF tx1, of A]
  show ?case by auto
qed

lemma section_count_frame:
  assumes "map section_frame (score_sheet_sections s') = map section_frame (score_sheet_sections s)"
  shows "section_count s' ident = section_count s ident"
proof -
  have *: "section_count t ident =
           length (filter (\<lambda>f. snd (snd f) = ident) (map section_frame (score_sheet_sections t)))" for t
    unfolding section_count_def filter_map length_map comp_def section_frame_def by simp
  show ?thesis unfolding * assms ..
qed

lemma UpdateScoreSheet_txn_frame:
  assumes "UpdateScoreSheet_txn sched ident handler s = (err, u, tx)"
  shows "map header_frame (score_sheets tx) = map header_frame (score_sheets s) \<and>
         filter (\<lambda>sh. ss_id sh \<noteq> ident) (score_sheets tx) = filter (\<lambda>sh. ss_id sh \<noteq> ident) (score_sheets s) \<and>
         map section_frame (score_sheet_sections tx) = map section_frame (score_sheet_sections s) \<and>
         other_tables tx = other_tables s \<and>
         (\<forall>fetched scoreSheet.
            FetchScoreSheet sched s ident = Inr (Some fetched) \<and> handler fetched = Inr scoreSheet \<longrightarrow>
            filter (\<lambda>sec. se_id sec \<notin> sn_Id ` set (sh_Sections scoreSheet)) (score_sheet_sections tx) =
            filter (\<lambda>sec. se_id sec \<notin> sn_Id ` set (sh_Sections scoreSheet)) (score_sheet_sections s))"
proof (cases "FetchScoreSheet sched s ident")
  case (Inl e)
  with assms show ?thesis by (simp add: UpdateScoreSheet_txn_def)
next
  case (Inr r)
  show ?thesis
  proof (cases r)
    case None
    with Inr assms show ?thesis by (simp add: UpdateScoreSheet_txn_def)
  next
    case (Some fetched)
    show ?thesis
    proof (cases "handler fetched")
      case (Inl e)
      with Inr Some assms show ?thesis by (simp add: UpdateScoreSheet_txn_def)
    next
      case h: (Inr scoreSheet)
      show ?thesis
      proof (cases "update_score_sheet s ident (tm_Id (sh_Team scoreSheet)) (sh_Timings scoreSheet) (sh_Comments scoreSheet)")
        case (Inl e)
        with Inr Some h assms show ?thesis by (simp add: UpdateScoreSheet_txn_def)
      next
        case u: (Inr tx1)
        obtain e2 tx2 where l: "update_sections (sh_Sections scoreSheet) tx1 = (e2, tx2)"
          by (cases "update_sections (sh_Sections scoreSheet) tx1")
        with Inr Some h u assms have tx: "tx = tx2"
          by (simp add: UpdateScoreSheet_txn_def)
        from update_score_sheet_frame [OF u]
             update_sections_frame [OF l, of "sn_Id ` set (sh_Sections scoreSheet)"]
        show ?thesis
          unfolding tx using Inr Some h by simp
      qed
    qed
  qed
qed


subsection \<open>The claims about the repository\<close>

text \<open>
  Claim C4. \<^verbatim>\<open>CreateScoreSheet\<close> is all or nothing. When the mutator returns an
  error, when the header insert fails, or when the bulk section insert fails, the
  function returns that error and the store is in the state it was in before: no
  sheet row and no section row has been added. After a failed section insert a fetch
  by the identifier that the header insert had generated finds no row. When nothing
  fails, the function returns what \<^verbatim>\<open>FetchScoreSheet\<close> reads from the committed
  state under the generated identifier, not the sheet the mutator filled in.
\<close>

theorem CreateScoreSheet_all_or_nothing:
  "(\<forall>handlerError. handler empty_ScoreSheet = Inl handlerError \<longrightarrow>
      CreateScoreSheet sched s handler = (Inl handlerError, s)) \<and>
   (\<forall>scoreSheet err.
      handler empty_ScoreSheet = Inr scoreSheet \<and> insert_header s scoreSheet = Inl err \<longrightarrow>
      CreateScoreSheet sched s handler = (Inl err, s)) \<and>
   (\<forall>scoreSheet ssRows s1.
      handler empty_ScoreSheet = Inr scoreSheet \<and> insert_header s scoreSheet = Inr (ssRows, s1) \<longrightarrow>
      (let scoreSheetID = gen_random_uuid (map ss_id (score_sheets s)) in
       ssRows = [scoreSheetID] \<and>
       (\<forall>err. insert_score_sheet_sections s1 (section_values scoreSheet scoreSheetID) = Inl err \<longrightarrow>
          CreateScoreSheet sched s handler = (Inl err, s) \<and>
          FetchScoreSheet sched' s scoreSheetID = Inl no_rows_error) \<and>
       (\<forall>s2. insert_score_sheet_sections s1 (section_values scoreSheet scoreSheetID) = Inr s2 \<longrightarrow>
          CreateScoreSheet sched s handler = (FetchScoreSheet sched s2 scoreSheetID, s2))))"
proof -
  have fresh: "\<forall>sh \<in> set (score_sheets s). ss_id sh \<noteq> gen_random_uuid (map ss_id (score_sheets s))"
    using gen_random_uuid_fresh [of "map ss_id (score_sheets s)"] by (metis image_eqI set_map)
  have 1: "CreateScoreSheet sched s handler = (Inl handlerError, s)"
    if "handler empty_ScoreSheet = Inl handlerError" for handlerError
    using that by (simp add: CreateScoreSheet_def ExecuteTxx_def CreateScoreSheet_txn_def)
  have 2: "CreateScoreSheet sched s handler = (Inl err, s)"
    if "handler empty_ScoreSheet = Inr scoreSheet" "insert_header s scoreSheet = Inl err" for scoreSheet err
    using that by (simp add: CreateScoreSheet_def ExecuteTxx_def CreateScoreSheet_txn_def)
  have 3: "ssRows = [gen_random_uuid (map ss_id (score_sheets s))] \<and>
       (\<forall>err. insert_score_sheet_sections s1 (section_values scoreSheet (gen_random_uuid (map ss_id (score_sheets s)))) = Inl err \<longrightarrow>
          CreateScoreSheet sched s handler = (Inl err, s) \<and>
          FetchScoreSheet sched' s (gen_random_uuid (map ss_id (score_sheets s))) = Inl no_rows_error) \<and>
       (\<forall>s2. insert_score_sheet_sections s1 (section_values scoreSheet (gen_random_uuid (map ss_id (score_sheets s)))) = Inr s2 \<longrightarrow>
          CreateScoreSheet sched s handler = (FetchScoreSheet sched s2 (gen_random_uuid (map ss_id (score_sheets s))), s2))"
    if h: "handler empty_ScoreSheet = Inr scoreSheet" and i: "insert_header s scoreSheet = Inr (ssRows, s1)"
    for scoreSheet ssRows s1
  proof -
    have ids: "ssRows = [gen_random_uuid (map ss_id (score_sheets s))]"
      using i by (rule insert_header_ids)
    show ?thesis
      using h i FetchScoreSheet_no_rows [OF fresh, of sched']
      unfolding ids
      by (auto simp: CreateScoreSheet_def ExecuteTxx_def CreateScoreSheet_txn_def Let_def)
  qed
  show ?thesis
    unfolding Let_def using 1 2 3 by blast
qed

theorem CreateScoreSheet_all_or_nothing_witness:
  "CreateScoreSheet HeaderFirst ex_db ex_reject = (Inl (ErrorString ''rejected''), ex_db) \<and>
   CreateScoreSheet HeaderFirst ex_db (ex_fill ''zz'' [''c'']) = (Inl (fk_violation ''score_sheets.team''), ex_db) \<and>
   CreateScoreSheet HeaderFirst ex_db (ex_fill ''a'' [''nope'']) =
     (Inl (fk_violation ''score_sheet_sections.section''), ex_db) \<and>
   FetchScoreSheet HeaderFirst ex_db (gen_random_uuid (map ss_id (score_sheets ex_db))) = Inl no_rows_error \<and>
   map_sum id (map_option (\<lambda>sh. (sh_Id sh, tm_Name (sh_Team sh), map sn_Id (sh_Sections sh))))
     (fst (CreateScoreSheet HeaderFirst ex_db (ex_fill ''a'' [''c''])))
     = Inr (Some (''000'', ''Team A'', [''000'']))"
proof -
  note main = CreateScoreSheet_all_or_nothing [of _ HeaderFirst ex_db HeaderFirst, unfolded Let_def]
  have r: "ex_reject empty_ScoreSheet = Inl (ErrorString ''rejected'')"
    by (simp add: ex_reject_def)
  from main [of ex_reject] r
  have 1: "CreateScoreSheet HeaderFirst ex_db ex_reject = (Inl (ErrorString ''rejected''), ex_db)"
    by blast
  define sheet where "sheet team cs = projr (ex_fill team cs empty_ScoreSheet)" for team cs
  have h: "ex_fill team cs empty_ScoreSheet = Inr (sheet team cs)" for team cs
    by (simp add: sheet_def ex_fill_def)
  have i2: "insert_header ex_db (sheet ''zz'' [''c'']) = Inl (fk_violation ''score_sheets.team'')"
    unfolding sheet_def by code_simp
  from main [of "ex_fill ''zz'' [''c'']"] h i2
  have 2: "CreateScoreSheet HeaderFirst ex_db (ex_fill ''zz'' [''c'']) = (Inl (fk_violation ''score_sheets.team''), ex_db)"
    by blast
  define s1 where "s1 = snd (projr (insert_header ex_db (sheet ''a'' [''nope''])))"
  define ids where "ids = fst (projr (insert_header ex_db (sheet ''a'' [''nope''])))"
  have i3: "insert_header ex_db (sheet ''a'' [''nope'']) = Inr (ids, s1)"
    unfolding sheet_def s1_def ids_def by code_simp
  have e3: "insert_score_sheet_sections s1
              (section_values (sheet ''a'' [''nope'']) (gen_random_uuid (map ss_id (score_sheets ex_db))))
            = Inl (fk_violation ''score_sheet_sections.section'')"
    unfolding sheet_def s1_def by code_simp
  from main [of "ex_fill ''a'' [''nope'']"] h i3 e3
  have 34: "CreateScoreSheet HeaderFirst ex_db (ex_fill ''a'' [''nope'']) =
     (Inl (fk_violation ''score_sheet_sections.section''), ex_db) \<and>
     FetchScoreSheet HeaderFirst ex_db (gen_random_uuid (map ss_id (score_sheets ex_db))) = Inl no_rows_error"
    by blast
  have 5: "map_sum id (map_option (\<lambda>sh. (sh_Id sh, tm_Name (sh_Team sh), map sn_Id (sh_Sections sh))))
     (fst (CreateScoreSheet HeaderFirst ex_db (ex_fill ''a'' [''c''])))
     = Inr (Some (''000'', ''Team A'', [''000'']))"
    by code_simp
  show ?thesis
    using 34 by (intro conjI) (rule 1, rule 2, blast, blast, rule 5)
qed


text \<open>
  Claim C5. For every sheet identifier and every mutator, the state after
  \<^verbatim>\<open>UpdateScoreSheet\<close> has the same sheet rows up to team, timings and comments
  (identifier, division, template, author, round and creation time are as before),
  sheet rows other than the one addressed are as before, the section rows are the
  same up to their values (none is inserted or deleted, so the number of section rows
  of the sheet is as before), a section row whose identifier is not the identifier of
  a section of the mutated sheet keeps its value, and every other table is as before.
\<close>

theorem UpdateScoreSheet_frame:
  "(let s' = snd (UpdateScoreSheet sched sched' s scoreSheetId handler) in
    map header_frame (score_sheets s') = map header_frame (score_sheets s) \<and>
    filter (\<lambda>sh. ss_id sh \<noteq> scoreSheetId) (score_sheets s') =
      filter (\<lambda>sh. ss_id sh \<noteq> scoreSheetId) (score_sheets s) \<and>
    map section_frame (score_sheet_sections s') = map section_frame (score_sheet_sections s) \<and>
    section_count s' scoreSheetId = section_count s scoreSheetId \<and>
    other_tables s' = other_tables s \<and>
    (\<forall>fetched scoreSheet.
       FetchScoreSheet sched s scoreSheetId = Inr (Some fetched) \<and> handler fetched = Inr scoreSheet \<longrightarrow>
       filter (\<lambda>sec. se_id sec \<notin> sn_Id ` set (sh_Sections scoreSheet)) (score_sheet_sections s') =
       filter (\<lambda>sec. se_id sec \<notin> sn_Id ` set (sh_Sections scoreSheet)) (score_sheet_sections s)))"
proof -
  obtain err u tx where txn: "UpdateScoreSheet_txn sched scoreSheetId handler s = (err, u, tx)"
    by (cases "UpdateScoreSheet_txn sched scoreSheetId handler s")
  have s': "snd (UpdateScoreSheet sched sched' s scoreSheetId handler) = (case err of None \<Rightarrow> tx | Some _ \<Rightarrow> s)"
    by (simp add: UpdateScoreSheet_def ExecuteTxx_def txn split: option.splits)
  show ?thesis
  proof (cases err)
    case None
    with s' have eq: "snd (UpdateScoreSheet sched sched' s scoreSheetId handler) = tx" by simp
    note fr = UpdateScoreSheet_txn_frame [OF txn]
    from fr have "section_count tx scoreSheetId = section_count s scoreSheetId"
      by (intro section_count_frame) simp
    with fr show ?thesis unfolding Let_def eq by blast
  next
    case (Some e)
    with s' have "snd (UpdateScoreSheet sched sched' s scoreSheetId handler) = s" by simp
    then show ?thesis by (simp add: Let_def)
  qed
qed

theorem UpdateScoreSheet_frame_witness:
  "section_count (snd (UpdateScoreSheet HeaderFirst HeaderFirst ex_db ''s0'' ex_edit)) ''s0'' = 1 \<and>
   map header_frame (score_sheets (snd (UpdateScoreSheet HeaderFirst HeaderFirst ex_db ''s0'' ex_edit)))
     = [(''s0'', ''d'', ''tp'', ''u'', 0, 1), (''s1'', ''d'', ''tp'', ''u'', 1, 2)] \<and>
   map ss_comments (score_sheets (snd (UpdateScoreSheet HeaderFirst HeaderFirst ex_db ''s0'' ex_edit)))
     = [''new'', ''ok''] \<and>
   map se_value (score_sheet_sections (snd (UpdateScoreSheet HeaderFirst HeaderFirst ex_db ''s0'' ex_edit)))
     = [7, 90004 / 1000]"
proof -
  let ?s' = "snd (UpdateScoreSheet HeaderFirst HeaderFirst ex_db ''s0'' ex_edit)"
  note main = UpdateScoreSheet_frame [of HeaderFirst HeaderFirst ex_db "''s0''" ex_edit, unfolded Let_def]
  have c: "section_count ex_db ''s0'' = 1" by code_simp
  have f: "map header_frame (score_sheets ex_db) = [(''s0'', ''d'', ''tp'', ''u'', 0, 1), (''s1'', ''d'', ''tp'', ''u'', 1, 2)]"
    by code_simp
  from main have "section_count ?s' ''s0'' = section_count ex_db ''s0''" by blast
  then have 1: "section_count ?s' ''s0'' = 1" unfolding c .
  from main have "map header_frame (score_sheets ?s') = map header_frame (score_sheets ex_db)" by blast
  then have 2: "map header_frame (score_sheets ?s') = [(''s0'', ''d'', ''tp'', ''u'', 0, 1), (''s1'', ''d'', ''tp'', ''u'', 1, 2)]"
    unfolding f .
  have 3: "map ss_comments (score_sheets ?s') = [''new'', ''ok'']" by code_simp
  have 4: "map se_value (score_sheet_sections ?s') = [7, 90004 / 1000]" by code_simp
  show ?thesis
    by (intro conjI) (rule 1, rule 2, rule 3, rule 4)
qed


text \<open>
  Claim C6. \<^verbatim>\<open>FetchScoreSheet\<close> joins the header task and the section task. Its
  result is a function of the outcomes of both tasks, so both have ended when it
  returns. If either task fails the result is the error of the task that failed
  first, wrapped, and no sheet; only when both succeed is the result the composite
  sheet, made of the header row and of the section rows in their order. It is never
  a nil sheet without an error.
\<close>

theorem FetchScoreSheet_join_cases:
  "FetchScoreSheet_join sched header sections =
     (case (header, sections) of
        (Inr fetchedSheet, Inr fetchedSections) \<Rightarrow>
          Inr (Some (pbScoreSheet_of fetchedSheet fetchedSections))
      | (Inl err, Inr _) \<Rightarrow> Inl (ErrorString (''Error fetching: '' @ Error err))
      | (Inr _, Inl err) \<Rightarrow> Inl (ErrorString (''Error fetching: '' @ Error err))
      | (Inl err1, Inl err2) \<Rightarrow>
          Inl (ErrorString (''Error fetching: '' @
                 Error (case sched of HeaderFirst \<Rightarrow> err1 | SectionsFirst \<Rightarrow> err2)))) \<and>
   ((\<exists>e. header = Inl e) \<or> (\<exists>e. sections = Inl e) \<longrightarrow>
      (\<exists>e. FetchScoreSheet_join sched header sections = Inl (ErrorString (''Error fetching: '' @ Error e)) \<and>
           (header = Inl e \<or> sections = Inl e))) \<and>
   (\<forall>scoreSheet. FetchScoreSheet_join sched header sections = Inr scoreSheet \<longrightarrow>
      (\<exists>fetchedSheet fetchedSections.
         header = Inr fetchedSheet \<and> sections = Inr fetchedSections \<and>
         scoreSheet = Some (pbScoreSheet_of fetchedSheet fetchedSections) \<and>
         sh_Id (pbScoreSheet_of fetchedSheet fetchedSections) = h_ID fetchedSheet \<and>
         map sn_Id (sh_Sections (pbScoreSheet_of fetchedSheet fetchedSections)) = map s_ID fetchedSections))"
  by (cases sched; cases header; cases sections)
     (auto simp: FetchScoreSheet_join_def group_Wait_def pbScoreSheet_of_def pbSection_of_def comp_def)

theorem FetchScoreSheet_join_cases_witness:
  "FetchScoreSheet_join HeaderFirst (Inl ErrNoRows) (Inl (PqError ''connection lost''))
     = Inl (ErrorString ''Error fetching: sql: no rows in result set'') \<and>
   FetchScoreSheet_join SectionsFirst (Inl ErrNoRows) (Inl (PqError ''connection lost''))
     = Inl (ErrorString ''Error fetching: pq: connection lost'') \<and>
   FetchScoreSheet_join SectionsFirst (Get (sheetQuery ex_db ''s0'')) (Inl (PqError ''connection lost''))
     = Inl (ErrorString ''Error fetching: pq: connection lost'') \<and>
   FetchScoreSheet SectionsFirst ex_db ''s0'' = FetchScoreSheet HeaderFirst ex_db ''s0'' \<and>
   map_sum id (map_option (\<lambda>sh. (sh_Id sh, map sn_Id (sh_Sections sh)))) (FetchScoreSheet HeaderFirst ex_db ''s0'')
     = Inr (Some (''s0'', [''x0'']))"
proof -
  note main = FetchScoreSheet_join_cases [THEN conjunct1]
  have g: "Get (sheetQuery ex_db ''s0'') = Inr (hd (sheetQuery ex_db ''s0''))" by code_simp
  have 1: "FetchScoreSheet_join HeaderFirst (Inl ErrNoRows) (Inl (PqError ''connection lost''))
     = Inl (ErrorString ''Error fetching: sql: no rows in result set'')"
    unfolding main by simp
  have 2: "FetchScoreSheet_join SectionsFirst (Inl ErrNoRows) (Inl (PqError ''connection lost''))
     = Inl (ErrorString ''Error fetching: pq: connection lost'')"
    unfolding main by simp
  have 3: "FetchScoreSheet_join SectionsFirst (Get (sheetQuery ex_db ''s0'')) (Inl (PqError ''connection lost''))
     = Inl (ErrorString ''Error fetching: pq: connection lost'')"
    unfolding g main by simp
  have 4: "FetchScoreSheet SectionsFirst ex_db ''s0'' = FetchScoreSheet HeaderFirst ex_db ''s0''"
    unfolding FetchScoreSheet_def g main by simp
  have 5: "map_sum id (map_option (\<lambda>sh. (sh_Id sh, map sn_Id (sh_Sections sh)))) (FetchScoreSheet HeaderFirst ex_db ''s0'')
     = Inr (Some (''s0'', [''x0'']))"
    by code_simp
  show ?thesis
    by (intro conjI) (rule 1, rule 2, rule 3, rule 4, rule 5)
qed


text \<open>
  Claim C7. For a sheet identifier that no sheet row has, \<^verbatim>\<open>UpdateScoreSheet\<close>
  returns the error that \<^verbatim>\<open>FetchScoreSheet\<close> makes of \<^verbatim>\<open>sql.ErrNoRows\<close>; the
  closure returns it before any statement that writes, so the state of the
  transaction, and the state of the store, are what they were. That error differs
  from every error the driver's failures produce in this function. For a mutator
  that returns an error on the fetched sheet, the closure returns that error before
  any write, the transaction rolls back, and the function returns the mutator's
  error as it is.
\<close>

theorem UpdateScoreSheet_errors:
  "((\<forall>sh \<in> set (score_sheets s). ss_id sh \<noteq> scoreSheetId) \<longrightarrow>
      UpdateScoreSheet_txn sched scoreSheetId handler s = (Some no_rows_error, (), s) \<and>
      UpdateScoreSheet sched sched' s scoreSheetId handler = (Inl no_rows_error, s)) \<and>
   (\<forall>fetched handlerError.
      FetchScoreSheet sched s scoreSheetId = Inr (Some fetched) \<and> handler fetched = Inl handlerError \<longrightarrow>
      UpdateScoreSheet_txn sched scoreSheetId handler s = (Some handlerError, (), s) \<and>
      UpdateScoreSheet sched sched' s scoreSheetId handler = (Inl handlerError, s)) \<and>
   (\<forall>msg. no_rows_error \<noteq> ErrorString (''Error fetching: '' @ Error (PqError msg)) \<and>
          no_rows_error \<noteq> PqError msg \<and> no_rows_error \<noteq> fk_violation msg)"
proof -
  have 1: "UpdateScoreSheet_txn sched scoreSheetId handler s = (Some no_rows_error, (), s) \<and>
      UpdateScoreSheet sched sched' s scoreSheetId handler = (Inl no_rows_error, s)"
    if "\<forall>sh \<in> set (score_sheets s). ss_id sh \<noteq> scoreSheetId"
    using FetchScoreSheet_no_rows [OF that, of sched]
    by (simp add: UpdateScoreSheet_def ExecuteTxx_def UpdateScoreSheet_txn_def)
  have 2: "UpdateScoreSheet_txn sched scoreSheetId handler s = (Some handlerError, (), s) \<and>
      UpdateScoreSheet sched sched' s scoreSheetId handler = (Inl handlerError, s)"
    if "FetchScoreSheet sched s scoreSheetId = Inr (Some fetched)" "handler fetched = Inl handlerError"
    for fetched handlerError
    using that by (simp add: UpdateScoreSheet_def ExecuteTxx_def UpdateScoreSheet_txn_def)
  have 3: "no_rows_error \<noteq> ErrorString (''Error fetching: '' @ Error (PqError msg)) \<and>
          no_rows_error \<noteq> PqError msg \<and> no_rows_error \<noteq> fk_violation msg" for msg
    by (simp add: no_rows_error_def fk_violation_def)
  show ?thesis using 1 2 3 by blast
qed

theorem UpdateScoreSheet_errors_witness:
  "UpdateScoreSheet HeaderFirst HeaderFirst ex_db ''zz'' ex_edit = (Inl no_rows_error, ex_db) \<and>
   no_rows_error = ErrorString ''Error fetching: sql: no rows in result set'' \<and>
   UpdateScoreSheet HeaderFirst HeaderFirst ex_db ''s0'' ex_reject = (Inl (ErrorString ''rejected''), ex_db)"
proof -
  note main = UpdateScoreSheet_errors [of ex_db _ HeaderFirst _ HeaderFirst]
  have a: "\<forall>sh \<in> set (score_sheets ex_db). ss_id sh \<noteq> ''zz''" by code_simp
  from main [of "''zz''" ex_edit] a
  have 1: "UpdateScoreSheet HeaderFirst HeaderFirst ex_db ''zz'' ex_edit = (Inl no_rows_error, ex_db)"
    by blast
  have 2: "no_rows_error = ErrorString ''Error fetching: sql: no rows in result set''"
    by (simp add: no_rows_error_def)
  define fetched where "fetched = the (projr (FetchScoreSheet HeaderFirst ex_db ''s0''))"
  have f: "FetchScoreSheet HeaderFirst ex_db ''s0'' = Inr (Some fetched)"
    unfolding fetched_def by code_simp
  have r: "ex_reject fetched = Inl (ErrorString ''rejected'')"
    by (simp add: ex_reject_def)
  from main [of "''s0''" ex_reject] f r
  have 3: "UpdateScoreSheet HeaderFirst HeaderFirst ex_db ''s0'' ex_reject = (Inl (ErrorString ''rejected''), ex_db)"
    by blast
  show ?thesis
    by (intro conjI) (rule 1, rule 2, rule 3)
qed


text \<open>
  Claim C10, as amended. When the mutator leaves the list of sections empty and the
  header insert succeeds, the section insert has no value row: the statement text is
  empty and the code executes it. If the driver answers an empty statement with an
  error, \<^verbatim>\<open>CreateScoreSheet\<close> returns that error and the store is unchanged. If
  the driver accepts it, the transaction commits: the header row is in the store, no
  section row has been added, and the function returns the sheet fetched from the
  committed state.
\<close>

theorem CreateScoreSheet_no_sections:
  "handler empty_ScoreSheet = Inr scoreSheet \<and> sh_Sections scoreSheet = [] \<and>
   insert_header s scoreSheet = Inr (ssRows, s1) \<longrightarrow>
     (case empty_statement_error s of
        Some msg \<Rightarrow> CreateScoreSheet sched s handler = (Inl (PqError msg), s)
      | None \<Rightarrow>
          CreateScoreSheet sched s handler =
            (FetchScoreSheet sched s1 (gen_random_uuid (map ss_id (score_sheets s))), s1) \<and>
          map ss_id (score_sheets s1) =
            map ss_id (score_sheets s) @ [gen_random_uuid (map ss_id (score_sheets s))] \<and>
          score_sheet_sections s1 = score_sheet_sections s)"
proof
  assume a: "handler empty_ScoreSheet = Inr scoreSheet \<and> sh_Sections scoreSheet = [] \<and>
   insert_header s scoreSheet = Inr (ssRows, s1)"
  then have i: "insert_header s scoreSheet = Inr (ssRows, s1)" by simp
  have ids: "ssRows = [gen_random_uuid (map ss_id (score_sheets s))]"
    using i by (rule insert_header_ids)
  note st = insert_header_state [OF i]
  show "case empty_statement_error s of
        Some msg \<Rightarrow> CreateScoreSheet sched s handler = (Inl (PqError msg), s)
      | None \<Rightarrow>
          CreateScoreSheet sched s handler =
            (FetchScoreSheet sched s1 (gen_random_uuid (map ss_id (score_sheets s))), s1) \<and>
          map ss_id (score_sheets s1) =
            map ss_id (score_sheets s) @ [gen_random_uuid (map ss_id (score_sheets s))] \<and>
          score_sheet_sections s1 = score_sheet_sections s"
    using a st unfolding ids
    by (simp add: CreateScoreSheet_def ExecuteTxx_def CreateScoreSheet_txn_def Let_def
          section_values_def insert_score_sheet_sections_def split: option.splits)
qed

theorem CreateScoreSheet_no_sections_witness:
  "CreateScoreSheet HeaderFirst (ex_db\<lparr>empty_statement_error := Some ''empty statement''\<rparr>) (ex_fill ''a'' [])
     = (Inl (PqError ''empty statement''), ex_db\<lparr>empty_statement_error := Some ''empty statement''\<rparr>) \<and>
   map ss_id (score_sheets (snd (projr (insert_header ex_db (projr (ex_fill ''a'' [] empty_ScoreSheet))))))
     = [''s0'', ''s1'', ''000'']"
proof -
  define sheet where "sheet = projr (ex_fill ''a'' [] empty_ScoreSheet)"
  have h: "ex_fill ''a'' [] empty_ScoreSheet = Inr sheet"
    by (simp add: sheet_def ex_fill_def)
  have e: "sh_Sections sheet = []"
    by (simp add: sheet_def ex_fill_def)
  let ?db = "ex_db\<lparr>empty_statement_error := Some ''empty statement''\<rparr>"
  define s1 where "s1 = snd (projr (insert_header ?db sheet))"
  define ids where "ids = fst (projr (insert_header ?db sheet))"
  have i: "insert_header ?db sheet = Inr (ids, s1)"
    unfolding sheet_def s1_def ids_def by code_simp
  have m: "empty_statement_error ?db = Some ''empty statement''" by simp
  from CreateScoreSheet_no_sections [of "ex_fill ''a'' []" sheet ?db ids s1 HeaderFirst] h e i
  have 1: "CreateScoreSheet HeaderFirst ?db (ex_fill ''a'' []) = (Inl (PqError ''empty statement''), ?db)"
    unfolding m by simp
  define t1 where "t1 = snd (projr (insert_header ex_db sheet))"
  define jds where "jds = fst (projr (insert_header ex_db sheet))"
  have j: "insert_header ex_db sheet = Inr (jds, t1)"
    unfolding sheet_def t1_def jds_def by code_simp
  have n: "empty_statement_error ex_db = None" by code_simp
  have g: "map ss_id (score_sheets ex_db) @ [gen_random_uuid (map ss_id (score_sheets ex_db))] = [''s0'', ''s1'', ''000'']"
    by code_simp
  from CreateScoreSheet_no_sections [of "ex_fill ''a'' []" sheet ex_db jds t1 HeaderFirst] h e j
  have "map ss_id (score_sheets t1) =
            map ss_id (score_sheets ex_db) @ [gen_random_uuid (map ss_id (score_sheets ex_db))]"
    unfolding n by simp
  then have 2: "map ss_id (score_sheets (snd (projr (insert_header ex_db (projr (ex_fill ''a'' [] empty_ScoreSheet))))))
     = [''s0'', ''s1'', ''000'']"
    unfolding g t1_def sheet_def .
  show ?thesis
    by (intro conjI) (rule 1, rule 2)
qed


text \<open>
  Claim C10 as it was stated, that a sheet without sections is never created, fails
  on the example store, whose driver accepts the empty statement: the sheet is
  created and has no section.
\<close>

theorem CreateScoreSheet_no_sections_counterexample:
  "empty_statement_error ex_db = None \<and>
   map_sum id (map_option (\<lambda>sh. (sh_Id sh, sh_Sections sh)))
     (fst (CreateScoreSheet HeaderFirst ex_db (ex_fill ''a'' []))) = Inr (Some (''000'', [])) \<and>
   map ss_id (score_sheets (snd (CreateScoreSheet HeaderFirst ex_db (ex_fill ''a'' []))))
     = [''s0'', ''s1'', ''000''] \<and>
   section_count (snd (CreateScoreSheet HeaderFirst ex_db (ex_fill ''a'' []))) ''000'' = 0"
proof -
  have 1: "empty_statement_error ex_db = None" by code_simp
  have 2: "map_sum id (map_option (\<lambda>sh. (sh_Id sh, sh_Sections sh)))
     (fst (CreateScoreSheet HeaderFirst ex_db (ex_fill ''a'' []))) = Inr (Some (''000'', []))"
    by code_simp
  have 3: "map ss_id (score_sheets (snd (CreateScoreSheet HeaderFirst ex_db (ex_fill ''a'' []))))
     = [''s0'', ''s1'', ''000'']"
    by code_simp
  have 4: "section_count (snd (CreateScoreSheet HeaderFirst ex_db (ex_fill ''a'' []))) ''000'' = 0"
    by code_simp
  show ?thesis
    by (intro conjI) (rule 1, rule 2, rule 3, rule 4)
qed


end
